theory Spec2Isabelle
  imports Complex_Main
begin

section \<open>Data model (shared/types.ts, shared/constants.ts)\<close>

text \<open>
  The adaptive session engine of the assessment platform: the Difficulty Adjuster and the
  Knowledge Area Selector (analytics/adaptive-engine.ts), the Scoring Engine
  (analytics/scoring-engine.ts) and the handlers that answer, serve and submit a session and
  create an assessment (lambda/handlers).

  JavaScript numbers are modelled exactly: counts as \<open>nat\<close>, difficulty levels as
  \<open>int\<close>, percentages, scores and times as \<open>rat\<close> (no floating-point rounding).
  Strings are \<open>string\<close>. The clock, the random generator, the identity provider and
  the text-generation service are parameters of the functions that use them.
\<close>

datatype KnowledgeArea =
    PROGRAMMING_LANGUAGE
  | ALGORITHMS_DATA_STRUCTURES
  | ANALYTICAL_REASONING
  | QUANTITATIVE_MATH
  | SYSTEM_SCENARIO_DESIGN
  | PSYCHOMETRIC_BEHAVIORAL

datatype SeniorityLevel = JUNIOR | MID | SENIOR | LEAD

type_synonym DifficultyLevel = int

text \<open>An answer is \<^verbatim>\<open>string | string[]\<close>.\<close>

datatype AnswerValue = Text string | Choices "string list"

record QuestionResponse =
  questionId :: string
  knowledgeArea :: KnowledgeArea
  difficulty :: DifficultyLevel
  answer :: AnswerValue
  isCorrect :: bool
  timeSpentSeconds :: rat
  answeredAt :: string

definition MAX_DIFFICULTY :: int where "MAX_DIFFICULTY = 5"
definition MIN_DIFFICULTY :: int where "MIN_DIFFICULTY = 1"
definition DIFFICULTY_INCREASE_THRESHOLD :: rat where "DIFFICULTY_INCREASE_THRESHOLD = 8 / 10"
definition DIFFICULTY_DECREASE_THRESHOLD :: rat where "DIFFICULTY_DECREASE_THRESHOLD = 4 / 10"
definition DIFFICULTY_STABLE_WINDOW :: nat where "DIFFICULTY_STABLE_WINDOW = 3"

section \<open>Difficulty Adjuster (analytics/adaptive-engine.ts)\<close>

text \<open>\<^verbatim>\<open>xs.slice(-n)\<close>: the last \<open>n\<close> elements, all of them when there are fewer.\<close>

definition slice_last :: "nat \<Rightarrow> 'a list \<Rightarrow> 'a list" where
  "slice_last n xs = drop (length xs - n) xs"

definition calculateNextDifficulty ::
  "DifficultyLevel \<Rightarrow> KnowledgeArea \<Rightarrow> QuestionResponse list \<Rightarrow> DifficultyLevel" where
  "calculateNextDifficulty currentDifficulty area recentResponses =
     (let areaResponses = filter (\<lambda>r. knowledgeArea r = area) recentResponses in
      if length areaResponses < DIFFICULTY_STABLE_WINDOW then currentDifficulty
      else
        let recentPerformance = slice_last DIFFICULTY_STABLE_WINDOW areaResponses;
            recentCorrect = length (filter isCorrect recentPerformance);
            recentAccuracy = (of_nat recentCorrect :: rat) / of_nat (length recentPerformance)
        in if recentAccuracy \<ge> DIFFICULTY_INCREASE_THRESHOLD \<and> currentDifficulty < MAX_DIFFICULTY
           then currentDifficulty + 1
           else if recentAccuracy < DIFFICULTY_DECREASE_THRESHOLD \<and> currentDifficulty > MIN_DIFFICULTY
           then currentDifficulty - 1
           else currentDifficulty)"


section \<open>JavaScript objects used as dictionaries\<close>

text \<open>
  A plain object keyed by strings keeps its keys in insertion order and assigning to an
  existing key keeps the key's position: an association list with distinct keys.
  \<open>obj_set\<close> is \<^verbatim>\<open>o[k] = v\<close>, \<open>map_of\<close> is \<^verbatim>\<open>o[k]\<close> (\<open>None\<close> for
  \<^verbatim>\<open>undefined\<close>), the list itself is \<^verbatim>\<open>Object.entries(o)\<close>.
\<close>

type_synonym ('k, 'v) obj = "('k \<times> 'v) list"

fun obj_set :: "'k \<Rightarrow> 'v \<Rightarrow> ('k, 'v) obj \<Rightarrow> ('k, 'v) obj" where
  "obj_set k v [] = [(k, v)]"
| "obj_set k v ((k', v') # kvs) =
     (if k = k' then (k, v) # kvs else (k', v') # obj_set k v kvs)"

text \<open>Object spread \<^verbatim>\<open>{...a, ...b}\<close>: the entries of \<open>b\<close> assigned onto \<open>a\<close> in order.\<close>

definition obj_spread :: "('k, 'v) obj \<Rightarrow> ('k, 'v) obj \<Rightarrow> ('k, 'v) obj" where
  "obj_spread a b = fold (\<lambda>(k, v) acc. obj_set k v acc) b a"

text \<open>
  The iteration order of \<^verbatim>\<open>new Set(xs)\<close>: each value once, at its first occurrence.
\<close>

fun set_order :: "'a list \<Rightarrow> 'a list" where
  "set_order [] = []"
| "set_order (x # xs) = x # filter (\<lambda>y. y \<noteq> x) (set_order xs)"

section \<open>Errors (shared/errors.ts)\<close>

text \<open>
  The \<^verbatim>\<open>PlatformError\<close> subclasses with their message; \<open>RuntimeError\<close> stands for every
  other thrown value (a plain \<^verbatim>\<open>Error\<close>, a \<^verbatim>\<open>TypeError\<close>, a \<^verbatim>\<open>SyntaxError\<close>).
\<close>

datatype Failure =
    AuthenticationError string
  | AuthorizationError string
  | TenantIsolationError string
  | ValidationError string
  | NotFoundError string
  | ConflictError string
  | RuntimeError string

fun statusCode :: "Failure \<Rightarrow> nat" where
  "statusCode (AuthenticationError _) = 401"
| "statusCode (AuthorizationError _) = 403"
| "statusCode (TenantIsolationError _) = 403"
| "statusCode (ValidationError _) = 400"
| "statusCode (NotFoundError _) = 404"
| "statusCode (ConflictError _) = 409"
| "statusCode (RuntimeError _) = 500"

fun errorCode :: "Failure \<Rightarrow> string" where
  "errorCode (AuthenticationError _) = ''AUTHENTICATION_ERROR''"
| "errorCode (AuthorizationError _) = ''AUTHORIZATION_ERROR''"
| "errorCode (TenantIsolationError _) = ''TENANT_ISOLATION_ERROR''"
| "errorCode (ValidationError _) = ''VALIDATION_ERROR''"
| "errorCode (NotFoundError _) = ''NOT_FOUND_ERROR''"
| "errorCode (ConflictError _) = ''CONFLICT_ERROR''"
| "errorCode (RuntimeError _) = ''INTERNAL_ERROR''"

text \<open>\<^verbatim>\<open>new NotFoundError(resource)\<close> has the message \<^verbatim>\<open>`${resource} not found`\<close>.\<close>

fun errorMessage :: "Failure \<Rightarrow> string" where
  "errorMessage (AuthenticationError m) = m"
| "errorMessage (AuthorizationError m) = m"
| "errorMessage (TenantIsolationError m) = m"
| "errorMessage (ValidationError m) = m"
| "errorMessage (NotFoundError resource) = resource @ '' not found''"
| "errorMessage (ConflictError m) = m"
| "errorMessage (RuntimeError m) = m"

text \<open>\<open>formatErrorResponse\<close>: the status code and the \<^verbatim>\<open>{code, message}\<close> of the body.\<close>

definition formatErrorResponse :: "Failure \<Rightarrow> nat \<times> string \<times> string" where
  "formatErrorResponse e = (statusCode e, errorCode e, errorMessage e)"

section \<open>Knowledge Area Selector (analytics/adaptive-engine.ts)\<close>

record KnowledgeAreaConfig =
  area :: KnowledgeArea
  percentage :: rat
  programmingLanguage :: "string option"

text \<open>The two \<^verbatim>\<open>forEach\<close> loops that fill \<^verbatim>\<open>areaCounts\<close>.\<close>

definition areaCounts ::
  "KnowledgeAreaConfig list \<Rightarrow> QuestionResponse list \<Rightarrow> (KnowledgeArea, nat) obj" where
  "areaCounts knowledgeAreaMix questionsAnswered =
     fold (\<lambda>response counts.
             case map_of counts (knowledgeArea response) of
               None \<Rightarrow> counts
             | Some n \<Rightarrow> obj_set (knowledgeArea response) (n + 1) counts)
          questionsAnswered
          (fold (\<lambda>config counts. obj_set (area config) 0 counts) knowledgeAreaMix [])"

text \<open>
  The loop that collects \<^verbatim>\<open>underTargetAreas\<close>. A configured area always has a count;
  the \<open>None\<close> branch of the lookup is never taken for an element of the mix.
\<close>

definition underTargetAreas ::
  "KnowledgeAreaConfig list \<Rightarrow> QuestionResponse list \<Rightarrow> (KnowledgeArea \<times> rat) list" where
  "underTargetAreas knowledgeAreaMix questionsAnswered =
     (let counts = areaCounts knowledgeAreaMix questionsAnswered;
          totalAnswered = length questionsAnswered
      in filter (\<lambda>(a, deficit). deficit > 0)
           (map (\<lambda>config.
                   let currentPercentage =
                         (if totalAnswered > 0
                          then (of_nat (case map_of counts (area config) of Some n \<Rightarrow> n | None \<Rightarrow> 0)
                                / of_nat totalAnswered) * 100
                          else 0)
                   in (area config, percentage config - currentPercentage))
                knowledgeAreaMix))"

text \<open>The \<^verbatim>\<open>for\<close> loop of \<open>weightedRandomSelection\<close>; \<open>None\<close> when it falls through.\<close>

fun weightedWalk :: "KnowledgeAreaConfig list \<Rightarrow> rat \<Rightarrow> KnowledgeArea option" where
  "weightedWalk [] random = None"
| "weightedWalk (config # rest) random =
     (let random' = random - percentage config
      in if random' \<le> 0 then Some (area config) else weightedWalk rest random')"

text \<open>
  \<open>rnd\<close> is the value of \<^verbatim>\<open>Math.random()\<close>, in \<open>[0, 1)\<close>. Reading
  \<^verbatim>\<open>knowledgeAreaMix[0].area\<close> of an empty mix throws a \<^verbatim>\<open>TypeError\<close>.
\<close>

definition weightedRandomSelection ::
  "rat \<Rightarrow> KnowledgeAreaConfig list \<Rightarrow> Failure + KnowledgeArea" where
  "weightedRandomSelection rnd knowledgeAreaMix =
     (let total = fold (\<lambda>config sum. sum + percentage config) knowledgeAreaMix 0;
          random = rnd * total
      in case weightedWalk knowledgeAreaMix random of
           Some a \<Rightarrow> Inr a
         | None \<Rightarrow> (case knowledgeAreaMix of
                      [] \<Rightarrow> Inl (RuntimeError ''TypeError'')
                    | config # _ \<Rightarrow> Inr (area config)))"

text \<open>
  \<^verbatim>\<open>sort((a, b) => b.deficit - a.deficit)\<close> is a stable sort by descending deficit:
  \<open>sort_key\<close> on the negated deficit.
\<close>

definition selectNextKnowledgeArea ::
  "rat \<Rightarrow> KnowledgeAreaConfig list \<Rightarrow> QuestionResponse list \<Rightarrow> (KnowledgeArea, DifficultyLevel) obj
     \<Rightarrow> Failure + KnowledgeArea" where
  "selectNextKnowledgeArea rnd knowledgeAreaMix questionsAnswered currentDifficulties =
     (let under = underTargetAreas knowledgeAreaMix questionsAnswered
      in if length under > 0
         then Inr (fst (hd (sort_key (\<lambda>(a, deficit). - deficit) under)))
         else weightedRandomSelection rnd knowledgeAreaMix)"


section \<open>Assessments, questions and sessions (shared/types.ts)\<close>

datatype QuestionType = MCQ | CODING | PROBLEM_SOLVING | NUMERICAL | SCENARIO_BASED

record Question =
  q_questionId :: string
  q_questionText :: string
  q_questionType :: QuestionType
  q_knowledgeArea :: KnowledgeArea
  q_difficulty :: DifficultyLevel
  q_options :: "string list option"
  q_correctAnswer :: AnswerValue
  q_explanation :: string

record TargetRole =
  name :: string
  seniorityLevel :: SeniorityLevel

text \<open>
  \<open>passThreshold\<close> is read by the scoring engine (\<^verbatim>\<open>assessment.passThreshold\<close>); it is
  optional, like \<open>maxQuestions\<close>.
\<close>

record Assessment =
  a_assessmentId :: string
  a_tenantId :: string
  title :: string
  description :: "string option"
  targetRole :: TargetRole
  knowledgeAreaMix :: "KnowledgeAreaConfig list"
  initialDifficulty :: DifficultyLevel
  durationMinutes :: "rat option"
  maxQuestions :: "rat option"
  passThreshold :: "rat option"
  createdAt :: string
  updatedAt :: string
  createdBy :: string
  isActive :: bool

datatype SessionStatus = IN_PROGRESS | COMPLETED | ABANDONED

text \<open>
  \<open>currentQuestion\<close> is the transient field the handlers keep on the session document.
  The copies of the question's text, type, options, key and explanation that
  \<open>submitAnswer\<close> stores beside each log entry are written and never read by the
  functions below; the log entry is the \<open>QuestionResponse\<close> itself.
\<close>

record CandidateSession =
  sessionId :: string
  assessmentId :: string
  tenantId :: string
  candidateEmail :: "string option"
  candidateName :: "string option"
  startedAt :: string
  submittedAt :: "string option"
  currentDifficulty :: "(KnowledgeArea, DifficultyLevel) obj"
  questionsAnswered :: "QuestionResponse list"
  status :: SessionStatus
  currentQuestion :: "Question option"

section \<open>Updating the session's difficulties (analytics/adaptive-engine.ts)\<close>

text \<open>\<^verbatim>\<open>session.currentDifficulty[area] || 3\<close>: 3 for a missing entry and for 0.\<close>

definition difficultyOr3 :: "(KnowledgeArea, DifficultyLevel) obj \<Rightarrow> KnowledgeArea \<Rightarrow> DifficultyLevel" where
  "difficultyOr3 difficulties a =
     (case map_of difficulties a of None \<Rightarrow> 3 | Some d \<Rightarrow> if d = 0 then 3 else d)"

definition updateSessionDifficulties :: "CandidateSession \<Rightarrow> (KnowledgeArea, DifficultyLevel) obj" where
  "updateSessionDifficulties session =
     (let knowledgeAreas = set_order (map knowledgeArea (questionsAnswered session));
          updatedDifficulties =
            fold (\<lambda>a updated.
                    obj_set a (calculateNextDifficulty (difficultyOr3 (currentDifficulty session) a)
                                 a (questionsAnswered session)) updated)
                 knowledgeAreas []
      in obj_spread (currentDifficulty session) updatedDifficulties)"

section \<open>Scoring Engine (analytics/scoring-engine.ts)\<close>

record AreaScore =
  score :: rat
  as_questionsAnswered :: nat
  correctAnswers :: nat
  avgDifficultyReached :: rat
  avgTimePerQuestion :: rat

record PerformanceMetrics =
  m_sessionId :: string
  m_assessmentId :: string
  m_tenantId :: string
  overallScore :: rat
  roleFitScore :: rat
  knowledgeAreaScores :: "(KnowledgeArea, AreaScore) obj"
  strengths :: "KnowledgeArea list"
  weaknesses :: "KnowledgeArea list"
  completedAt :: string

text \<open>The scoring engine that computes pass/fail returns one more field.\<close>

record PerformanceMetricsPassed = PerformanceMetrics +
  passed :: bool

text \<open>\<^verbatim>\<open>Math.round\<close>: the nearest integer, a tie going up.\<close>

definition Math_round :: "rat \<Rightarrow> rat" where
  "Math_round x = of_int \<lfloor>x + 1 / 2\<rfloor>"

text \<open>The two \<^verbatim>\<open>forEach\<close> loops that group the log by configured area.\<close>

definition areaGroups ::
  "KnowledgeAreaConfig list \<Rightarrow> QuestionResponse list \<Rightarrow> (KnowledgeArea, QuestionResponse list) obj" where
  "areaGroups mix answered =
     fold (\<lambda>response groups.
             case map_of groups (knowledgeArea response) of
               None \<Rightarrow> groups
             | Some rs \<Rightarrow> obj_set (knowledgeArea response) (rs @ [response]) groups)
          answered
          (fold (\<lambda>config groups. obj_set (area config) [] groups) mix [])"

text \<open>The body of the loop over the groups, for a non-empty group.\<close>

definition areaScoreOf :: "QuestionResponse list \<Rightarrow> AreaScore" where
  "areaScoreOf responses =
     (let correct = length (filter isCorrect responses);
          totalTime = fold (\<lambda>r sum. sum + timeSpentSeconds r) responses 0;
          difficulties = map difficulty responses;
          avgDifficulty = (of_int (fold (\<lambda>d sum. sum + d) difficulties 0) :: rat)
                          / of_nat (length difficulties)
      in \<lparr> score = (of_nat correct / of_nat (length responses)) * 100,
           as_questionsAnswered = length responses,
           correctAnswers = correct,
           avgDifficultyReached = avgDifficulty,
           avgTimePerQuestion = totalTime / of_nat (length responses) \<rparr>)"

definition areaScores ::
  "KnowledgeAreaConfig list \<Rightarrow> QuestionResponse list \<Rightarrow> (KnowledgeArea, AreaScore) obj" where
  "areaScores mix answered =
     fold (\<lambda>(a, responses) scores.
             if length responses = 0 then scores else obj_set a (areaScoreOf responses) scores)
          (areaGroups mix answered) []"

definition calculateWeightedScore ::
  "(KnowledgeArea, AreaScore) obj \<Rightarrow> KnowledgeAreaConfig list \<Rightarrow> rat" where
  "calculateWeightedScore scores mix =
     (let (totalWeightedScore, totalWeight) =
            fold (\<lambda>config (tws, tw).
                    case map_of scores (area config) of
                      None \<Rightarrow> (tws, tw)
                    | Some areaScore \<Rightarrow>
                        if as_questionsAnswered areaScore > 0
                        then (let weight = percentage config / 100
                              in (tws + score areaScore * weight, tw + weight))
                        else (tws, tw))
                 mix (0, 0)
      in if totalWeight > 0 then totalWeightedScore / totalWeight else 0)"

text \<open>
  The role-specific multiplier of \<^verbatim>\<open>weight *= 1.5\<close> and \<^verbatim>\<open>weight *= 1.3\<close>; it is 1
  for an area whose weight the source leaves as it is.
\<close>

definition roleMultiplier :: "TargetRole \<Rightarrow> KnowledgeArea \<Rightarrow> rat" where
  "roleMultiplier role a =
     (if seniorityLevel role = SENIOR \<or> seniorityLevel role = LEAD
      then (if a = SYSTEM_SCENARIO_DESIGN then 15 / 10
            else if a = ALGORITHMS_DATA_STRUCTURES then 13 / 10 else 1)
      else (if a = PROGRAMMING_LANGUAGE then 15 / 10
            else if a = ANALYTICAL_REASONING then 13 / 10 else 1))"

definition calculateRoleFitScore ::
  "(KnowledgeArea, AreaScore) obj \<Rightarrow> TargetRole \<Rightarrow> KnowledgeAreaConfig list \<Rightarrow> rat" where
  "calculateRoleFitScore scores role mix =
     (let (totalWeightedScore, totalWeight) =
            fold (\<lambda>config (tws, tw).
                    case map_of scores (area config) of
                      None \<Rightarrow> (tws, tw)
                    | Some areaScore \<Rightarrow>
                        if as_questionsAnswered areaScore > 0
                        then (let weight = (percentage config / 100) * roleMultiplier role (area config)
                              in (tws + score areaScore * weight, tw + weight))
                        else (tws, tw))
                 mix (0, 0)
      in if totalWeight = 0 then 0
         else Math_round (min 100 (max 0 (totalWeightedScore / totalWeight))))"

text \<open>
  The repository holds a second copy of the scoring engine whose role-fit score is the
  overall score plus an adjustment; \<^verbatim>\<open>x?.score || 0\<close> is 0 for a missing area.
\<close>

definition scoreOr0 :: "(KnowledgeArea, AreaScore) obj \<Rightarrow> KnowledgeArea \<Rightarrow> rat" where
  "scoreOr0 scores a = (case map_of scores a of None \<Rightarrow> 0 | Some areaScore \<Rightarrow> score areaScore)"

definition calculateRoleFitScore_additive ::
  "(KnowledgeArea, AreaScore) obj \<Rightarrow> TargetRole \<Rightarrow> KnowledgeAreaConfig list \<Rightarrow> rat" where
  "calculateRoleFitScore_additive scores role mix =
     (let baseScore = calculateWeightedScore scores mix;
          adjustment =
            (if seniorityLevel role = SENIOR \<or> seniorityLevel role = LEAD
             then (scoreOr0 scores SYSTEM_SCENARIO_DESIGN * (15 / 100)
                   + scoreOr0 scores ALGORITHMS_DATA_STRUCTURES * (1 / 10)) * (3 / 10)
             else (scoreOr0 scores PROGRAMMING_LANGUAGE * (15 / 100)
                   + scoreOr0 scores ANALYTICAL_REASONING * (1 / 10)) * (3 / 10))
      in Math_round (min 100 (max 0 (baseScore + adjustment))))"

definition identifyStrengthsAndWeaknesses ::
  "(KnowledgeArea, AreaScore) obj \<Rightarrow> KnowledgeAreaConfig list \<Rightarrow> KnowledgeArea list \<times> KnowledgeArea list" where
  "identifyStrengthsAndWeaknesses scores mix =
     (let answeredScores = map score (filter (\<lambda>s. as_questionsAnswered s > 0) (map snd scores));
          avgScore = (if length answeredScores > 0
                      then fold (\<lambda>s sum. sum + s) answeredScores 0 / of_nat (length answeredScores)
                      else 0);
          strengthThreshold = avgScore + 10;
          weaknessThreshold = avgScore - 15
      in fold (\<lambda>config (strong, weak).
                 case map_of scores (area config) of
                   None \<Rightarrow> (strong, weak)
                 | Some areaScore \<Rightarrow>
                     if as_questionsAnswered areaScore > 0
                     then (if score areaScore \<ge> strengthThreshold then (strong @ [area config], weak)
                           else if score areaScore \<le> weaknessThreshold then (strong, weak @ [area config])
                           else (strong, weak))
                     else (strong, weak))
              mix ([], []))"

text \<open>
  The \<^verbatim>\<open>switch\<close> over the seniority level; its default branch (60) is for strings that
  are none of the four levels.
\<close>

fun getDefaultPassThreshold :: "SeniorityLevel \<Rightarrow> rat" where
  "getDefaultPassThreshold JUNIOR = 50"
| "getDefaultPassThreshold MID = 60"
| "getDefaultPassThreshold SENIOR = 70"
| "getDefaultPassThreshold LEAD = 75"

text \<open>\<^verbatim>\<open>a || b\<close> on an optional string: \<open>b\<close> when \<open>a\<close> is missing or empty.\<close>

definition strOr :: "string option \<Rightarrow> string \<Rightarrow> string" where
  "strOr a b = (case a of None \<Rightarrow> b | Some s \<Rightarrow> if s = [] then b else s)"

text \<open>\<^verbatim>\<open>a || b\<close> on an optional number: \<open>b\<close> when \<open>a\<close> is missing or 0.\<close>

definition numOr :: "rat option \<Rightarrow> rat \<Rightarrow> rat" where
  "numOr a b = (case a of None \<Rightarrow> b | Some x \<Rightarrow> if x = 0 then b else x)"



text \<open>
  \<open>now\<close> is the value of \<^verbatim>\<open>new Date().toISOString()\<close> at the time of the call; the
  function reads the clock only when the session has no \<open>submittedAt\<close>.
\<close>

definition calculatePerformanceMetrics ::
  "string \<Rightarrow> CandidateSession \<Rightarrow> Assessment \<Rightarrow> PerformanceMetricsPassed" where
  "calculatePerformanceMetrics now session assessment =
     (let scores = areaScores (knowledgeAreaMix assessment) (questionsAnswered session);
          overall = calculateWeightedScore scores (knowledgeAreaMix assessment);
          roleFit = calculateRoleFitScore scores (targetRole assessment) (knowledgeAreaMix assessment);
          (strong, weak) = identifyStrengthsAndWeaknesses scores (knowledgeAreaMix assessment);
          threshold = numOr (passThreshold assessment)
                        (getDefaultPassThreshold (seniorityLevel (targetRole assessment)))
      in \<lparr> m_sessionId = sessionId session,
           m_assessmentId = assessmentId session,
           m_tenantId = tenantId session,
           overallScore = overall,
           roleFitScore = roleFit,
           knowledgeAreaScores = scores,
           strengths = strong,
           weaknesses = weak,
           completedAt = strOr (submittedAt session) now,
           passed = (roleFit \<ge> threshold) \<rparr>)"

text \<open>The second copy: the additive role-fit score and no pass/fail field.\<close>

definition calculatePerformanceMetrics_additive ::
  "string \<Rightarrow> CandidateSession \<Rightarrow> Assessment \<Rightarrow> PerformanceMetrics" where
  "calculatePerformanceMetrics_additive now session assessment =
     (let scores = areaScores (knowledgeAreaMix assessment) (questionsAnswered session);
          overall = calculateWeightedScore scores (knowledgeAreaMix assessment);
          roleFit = calculateRoleFitScore_additive scores (targetRole assessment)
                      (knowledgeAreaMix assessment);
          (strong, weak) = identifyStrengthsAndWeaknesses scores (knowledgeAreaMix assessment)
      in \<lparr> m_sessionId = sessionId session,
           m_assessmentId = assessmentId session,
           m_tenantId = tenantId session,
           overallScore = overall,
           roleFitScore = roleFit,
           knowledgeAreaScores = scores,
           strengths = strong,
           weaknesses = weak,
           completedAt = strOr (submittedAt session) now \<rparr>)"


section \<open>Strings and answer grading (lambda/handlers/sessions.ts)\<close>

text \<open>
  A character is a code unit below 256. \<^verbatim>\<open>trim\<close> removes white space and line
  terminators from both ends, \<^verbatim>\<open>toLowerCase\<close> maps A-Z and the Latin-1 capitals to
  their small letters.
\<close>

definition isWhiteSpace :: "char \<Rightarrow> bool" where
  "isWhiteSpace c = (of_char c \<in> {9, 10, 11, 12, 13, 32, 160 :: nat})"

definition trim :: "string \<Rightarrow> string" where
  "trim s = rev (dropWhile isWhiteSpace (rev (dropWhile isWhiteSpace s)))"

definition lowerChar :: "char \<Rightarrow> char" where
  "lowerChar c =
     (let n = (of_char c :: nat)
      in if (65 \<le> n \<and> n \<le> 90) \<or> (192 \<le> n \<and> n \<le> 222 \<and> n \<noteq> 215)
         then char_of (n + 32) else c)"

definition toLowerCase :: "string \<Rightarrow> string" where
  "toLowerCase s = map lowerChar s"

text \<open>\<^verbatim>\<open>String(x)\<close>: a string is itself, an array is its elements joined by commas.\<close>

fun joinComma :: "string list \<Rightarrow> string" where
  "joinComma [] = []"
| "joinComma [x] = x"
| "joinComma (x # y # ys) = x @ '','' @ joinComma (y # ys)"

fun String_of :: "AnswerValue \<Rightarrow> string" where
  "String_of (Text s) = s"
| "String_of (Choices xs) = joinComma xs"

fun checkAnswer :: "AnswerValue \<Rightarrow> AnswerValue \<Rightarrow> bool" where
  "checkAnswer userAnswer (Choices correct) =
     (case userAnswer of
        Text _ \<Rightarrow> False
      | Choices user \<Rightarrow>
          list_all (\<lambda>ans. ans \<in> set user) correct \<and> list_all (\<lambda>ans. ans \<in> set correct) user)"
| "checkAnswer userAnswer (Text correct) =
     (toLowerCase (trim (String_of userAnswer)) = toLowerCase (trim correct))"

section \<open>The tables (shared/dynamodb.ts)\<close>

record AIInsight =
  i_sessionId :: string
  i_assessmentId :: string
  roleFitAssessment :: string
  trainingRecommendations :: "string list"
  generatedAt :: string

text \<open>
  Every table is keyed by the partition key \<open>tenantId\<close> and a sort key. The tables are an
  external store: a read or write of the store itself is taken to succeed, and the checks
  that \<open>putItem\<close> and \<open>updateItem\<close> make before they call it are part of the model.
\<close>

record Store =
  sessions :: "string \<times> string \<rightharpoonup> CandidateSession"
  assessments :: "string \<times> string \<rightharpoonup> Assessment"
  questions :: "string \<times> string \<rightharpoonup> Question"
  metrics :: "string \<times> string \<rightharpoonup> PerformanceMetrics"
  insights :: "string \<times> string \<rightharpoonup> AIInsight"

text \<open>
  \<open>findSessionById\<close>: a direct read when the caller gave a non-empty \<open>tenantId\<close>, else
  the session of that id in the partition of the empty tenant (the sort key of a session
  is its \<open>sessionId\<close>).
\<close>

definition findSessionById :: "Store \<Rightarrow> string \<Rightarrow> string option \<Rightarrow> CandidateSession option" where
  "findSessionById st sid tid =
     (case tid of
        None \<Rightarrow> sessions st ([], sid)
      | Some t \<Rightarrow> if t = [] then sessions st ([], sid) else sessions st (t, sid))"

text \<open>
  \<open>updateItem\<close> on the sessions table: it throws a plain \<^verbatim>\<open>Error\<close> for a
  \<open>tenantId\<close> that is empty after trimming, and updates the item under the trimmed
  \<open>tenantId\<close>. The handlers update only the session they have just read; an update of
  a key that holds no item leaves the table as it is here.
\<close>

definition updateSessionItem ::
  "Store \<Rightarrow> string \<Rightarrow> string \<Rightarrow> (CandidateSession \<Rightarrow> CandidateSession) \<Rightarrow> Failure + Store" where
  "updateSessionItem st tenant sid f =
     (if trim tenant = [] then Inl (RuntimeError ''Cannot update item: tenantId is empty or invalid'')
      else Inr (case sessions st (trim tenant, sid) of
                  None \<Rightarrow> st
                | Some s \<Rightarrow> st\<lparr>sessions := (sessions st)((trim tenant, sid) \<mapsto> f s)\<rparr>))"

section \<open>Answering a question (lambda/handlers/sessions.ts)\<close>

record AnswerBody =
  b_questionId :: "string option"
  b_answer :: "AnswerValue option"
  b_timeSpentSeconds :: "rat option"

text \<open>\<open>ev_body = None\<close>: the request body is not JSON.\<close>

record AnswerEvent =
  ev_sessionId :: "string option"
  ev_tenantId :: "string option"
  ev_body :: "AnswerBody option"

record AnswerResult =
  res_isCorrect :: bool
  res_explanation :: string
  nextQuestionAvailable :: bool
  res_questionsAnswered :: nat
  res_maxQuestions :: rat

text \<open>
  The question being answered: the session's \<open>currentQuestion\<close> when its id matches,
  else the item of the questions table.
\<close>

definition lookupQuestion ::
  "Store \<Rightarrow> CandidateSession \<Rightarrow> string \<Rightarrow> Failure + Question option" where
  "lookupQuestion st session qid =
     (case currentQuestion session of
        None \<Rightarrow> Inr (questions st (trim (tenantId session), assessmentId session @ ''#'' @ qid))
      | Some stored \<Rightarrow>
          if q_questionId stored = qid
          then (if q_questionId stored \<noteq> [] \<and> q_questionText stored \<noteq> []
                then Inr (Some stored)
                else Inl (ValidationError ''Invalid question data in session''))
          else Inr (questions st (trim (tenantId session), assessmentId session @ ''#'' @ qid)))"

text \<open>
  The part of \<open>submitAnswer\<close> after every check has passed: grade, append, update the
  difficulties, write the session, report the cap.
\<close>

definition recordAnswer ::
  "string \<Rightarrow> Store \<Rightarrow> string \<Rightarrow> CandidateSession \<Rightarrow> Question \<Rightarrow> string \<Rightarrow> AnswerValue \<Rightarrow> rat
     \<Rightarrow> (Failure + AnswerResult) \<times> Store" where
  "recordAnswer now st sid session question qid ans seconds =
     (let correct = checkAnswer ans (q_correctAnswer question);
          response = \<lparr> questionId = qid,
                       knowledgeArea = q_knowledgeArea question,
                       difficulty = q_difficulty question,
                       answer = ans,
                       isCorrect = correct,
                       timeSpentSeconds = seconds,
                       answeredAt = now \<rparr>;
          updatedQuestions = questionsAnswered session @ [response];
          updatedDifficulties =
            updateSessionDifficulties (session\<lparr>questionsAnswered := updatedQuestions\<rparr>);
          assessment = assessments st (trim (tenantId session), assessmentId session)
      in case updateSessionItem st (trim (tenantId session)) sid
                (\<lambda>s. s\<lparr>questionsAnswered := updatedQuestions,
                        currentDifficulty := updatedDifficulties,
                        currentQuestion := None\<rparr>) of
           Inl e \<Rightarrow> (Inl e, st)
         | Inr st' \<Rightarrow>
             (let MAX_QUESTIONS = numOr (case assessment of None \<Rightarrow> None | Some a \<Rightarrow> maxQuestions a) 10;
                  answered = length (questionsAnswered session) + 1
              in (Inr \<lparr> res_isCorrect = correct,
                        res_explanation = q_explanation question,
                        nextQuestionAvailable = (of_nat answered < MAX_QUESTIONS),
                        res_questionsAnswered = answered,
                        res_maxQuestions = MAX_QUESTIONS \<rparr>, st')))"

definition submitAnswer :: "string \<Rightarrow> AnswerEvent \<Rightarrow> Store \<Rightarrow> (Failure + AnswerResult) \<times> Store" where
  "submitAnswer now event st =
     (case ev_sessionId event of
        None \<Rightarrow> (Inl (ValidationError ''Session ID required''), st)
      | Some sid \<Rightarrow>
         (if sid = [] then (Inl (ValidationError ''Session ID required''), st)
          else
           (case ev_body event of
              None \<Rightarrow> (Inl (RuntimeError ''SyntaxError''), st)
            | Some body \<Rightarrow>
               (case (b_questionId body, b_answer body, b_timeSpentSeconds body) of
                  (Some qid, Some ans, Some seconds) \<Rightarrow>
                    (if qid = []
                     then (Inl (ValidationError ''Missing required fields: questionId, answer, timeSpentSeconds''), st)
                     else
                      (case findSessionById st sid (ev_tenantId event) of
                         None \<Rightarrow> (Inl (NotFoundError ''Session''), st)
                       | Some session \<Rightarrow>
                          (if status session \<noteq> IN_PROGRESS
                           then (Inl (ValidationError ''Session is not in progress''), st)
                           else if trim (tenantId session) = []
                           then (Inl (ValidationError ''Session configuration error: tenantId is missing. Please contact support.''), st)
                           else
                            (case lookupQuestion st session qid of
                               Inl e \<Rightarrow> (Inl e, st)
                             | Inr None \<Rightarrow> (Inl (NotFoundError ''Question''), st)
                             | Inr (Some question) \<Rightarrow>
                                (if list_ex (\<lambda>r. questionId r = qid) (questionsAnswered session)
                                 then (Inl (ValidationError ''Question already answered''), st)
                                 else recordAnswer now st sid session question qid ans seconds)))))
                | _ \<Rightarrow> (Inl (ValidationError ''Missing required fields: questionId, answer, timeSpentSeconds''), st)))))"


section \<open>Requesting the next question (lambda/handlers/sessions.ts)\<close>

record SessionEvent =
  se_sessionId :: "string option"
  se_tenantId :: "string option"



section \<open>Submitting a session (lambda/handlers/sessions.ts)\<close>

record SubmitResult =
  sr_sessionId :: string
  sr_status :: SessionStatus
  sr_overallScore :: rat
  sr_roleFitScore :: rat
  insightsAvailable :: bool

text \<open>
  \<open>putItem\<close> throws a plain \<^verbatim>\<open>Error\<close> for an item whose \<open>tenantId\<close> is empty after
  trimming, and stores the item under the trimmed \<open>tenantId\<close>.
\<close>

definition putMetrics :: "Store \<Rightarrow> PerformanceMetrics \<Rightarrow> Failure + Store" where
  "putMetrics st item =
     (if trim (m_tenantId item) = [] then Inl (RuntimeError ''Cannot save item: tenantId is empty or invalid'')
      else Inr (st\<lparr>metrics := (metrics st)((trim (m_tenantId item), m_sessionId item)
                                \<mapsto> item\<lparr>m_tenantId := trim (m_tenantId item)\<rparr>)\<rparr>))"

text \<open>
  \<open>generateInsights\<close> (an external text-generation call whose failure the handler
  swallows) is a parameter that returns the insights or nothing. \<open>now\<close> is the clock
  when the metrics are computed, \<open>now'\<close> the clock when the session is marked.
\<close>

definition submitSession ::
  "(PerformanceMetricsPassed \<Rightarrow> Assessment \<Rightarrow> AIInsight option)
     \<Rightarrow> string \<Rightarrow> string \<Rightarrow> SessionEvent \<Rightarrow> Store \<Rightarrow> (Failure + SubmitResult) \<times> Store" where
  "submitSession generateInsights now now' event st =
     (case se_sessionId event of
        None \<Rightarrow> (Inl (ValidationError ''Session ID required''), st)
      | Some sid \<Rightarrow>
         (if sid = [] then (Inl (ValidationError ''Session ID required''), st)
          else
           (case findSessionById st sid (se_tenantId event) of
              None \<Rightarrow> (Inl (NotFoundError ''Session''), st)
            | Some session \<Rightarrow>
               (if status session \<noteq> IN_PROGRESS
                then (Inl (ValidationError ''Session already submitted''), st)
                else
                 (case assessments st (tenantId session, assessmentId session) of
                    None \<Rightarrow> (Inl (NotFoundError ''Assessment''), st)
                  | Some assessment \<Rightarrow>
                     (let computed = calculatePerformanceMetrics now session assessment;
                          metricsItem = \<lparr> m_sessionId = m_sessionId computed,
                                          m_assessmentId = m_assessmentId computed,
                                          m_tenantId = trim (tenantId session),
                                          overallScore = overallScore computed,
                                          roleFitScore = roleFitScore computed,
                                          knowledgeAreaScores = knowledgeAreaScores computed,
                                          strengths = strengths computed,
                                          weaknesses = weaknesses computed,
                                          completedAt = completedAt computed \<rparr>
                      in (case putMetrics st metricsItem of
                            Inl e \<Rightarrow> (Inl e, st)
                          | Inr st1 \<Rightarrow>
                             (let generated = generateInsights computed assessment;
                                  st2 = (case generated of
                                           None \<Rightarrow> st1
                                         | Some i \<Rightarrow>
                                             st1\<lparr>insights := (insights st1)((trim (tenantId session), i_sessionId i) \<mapsto> i)\<rparr>)
                              in (case updateSessionItem st2 (tenantId session) sid
                                         (\<lambda>s. s\<lparr>status := COMPLETED, submittedAt := Some now'\<rparr>) of
                                    Inl e \<Rightarrow> (Inl e, st2)
                                  | Inr st3 \<Rightarrow>
                                     (Inr \<lparr> sr_sessionId = sid,
                                            sr_status = COMPLETED,
                                            sr_overallScore = overallScore computed,
                                            sr_roleFitScore = roleFitScore computed,
                                            insightsAvailable = (generated \<noteq> None) \<rparr>, st3))))))))))"

section \<open>Creating an assessment (lambda/handlers/assessments.ts)\<close>

datatype UserRole = ADMIN | TENANT | CANDIDATE

record CognitoUserAttributes =
  sub :: string
  email :: string
  custom_tenantId :: "string option"
  custom_role :: UserRole

definition hasRole :: "CognitoUserAttributes \<Rightarrow> UserRole \<Rightarrow> bool" where
  "hasRole user requiredRole = (custom_role user = requiredRole)"

text \<open>\<open>getTenantId\<close>: \<^verbatim>\<open>custom:tenantId || null\<close>.\<close>

definition getTenantId :: "CognitoUserAttributes \<Rightarrow> string option" where
  "getTenantId user =
     (case custom_tenantId user of None \<Rightarrow> None | Some t \<Rightarrow> if t = [] then None else Some t)"

text \<open>
  The fields of the request body as JSON gives them: \<open>knowledgeAreaMix\<close> may be missing
  or not an array, \<open>maxQuestions\<close> may be missing or not a number; \<open>initialDifficulty\<close>
  is whatever number the caller sent.
\<close>

datatype MixField = MixMissing | MixNotArray | MixArray "KnowledgeAreaConfig list"

datatype MaxQuestionsField = MaxMissing | MaxNotNumber | MaxNumber rat

record CreateAssessmentBody =
  cb_title :: "string option"
  cb_description :: "string option"
  cb_targetRole :: "TargetRole option"
  cb_knowledgeAreaMix :: MixField
  cb_initialDifficulty :: "DifficultyLevel option"
  cb_durationMinutes :: "rat option"
  cb_maxQuestions :: MaxQuestionsField
  cb_tenantId :: "string option"

text \<open>\<open>ce_body = None\<close>: the request body is not JSON.\<close>

record CreateAssessmentEvent =
  ce_authorization :: "string option"
  ce_body :: "CreateAssessmentBody option"

text \<open>The validation of \<open>maxQuestions\<close> and its default of 10.\<close>

definition maxQuestionsInvalid :: "MaxQuestionsField \<Rightarrow> bool" where
  "maxQuestionsInvalid m =
     (case m of MaxMissing \<Rightarrow> False | MaxNotNumber \<Rightarrow> True | MaxNumber n \<Rightarrow> n < 1 \<or> n > 50)"

definition maxQuestionsValue :: "MaxQuestionsField \<Rightarrow> rat" where
  "maxQuestionsValue m = (case m of MaxNumber n \<Rightarrow> n | _ \<Rightarrow> 10)"

definition totalPercentage :: "KnowledgeAreaConfig list \<Rightarrow> rat" where
  "totalPercentage mix = fold (\<lambda>config sum. sum + percentage config) mix 0"

text \<open>
  \<open>putItem\<close> on the assessments table, with the same \<open>tenantId\<close> check as above.
\<close>

definition putAssessment :: "Store \<Rightarrow> Assessment \<Rightarrow> Failure + Store" where
  "putAssessment st item =
     (if trim (a_tenantId item) = [] then Inl (RuntimeError ''Cannot save item: tenantId is empty or invalid'')
      else Inr (st\<lparr>assessments := (assessments st)((trim (a_tenantId item), a_assessmentId item)
                                    \<mapsto> item\<lparr>a_tenantId := trim (a_tenantId item)\<rparr>)\<rparr>))"

text \<open>
  \<open>getUserFromToken\<close> (token decoding and the identity provider) is a parameter applied
  to the authorization header; \<open>uuid\<close> and \<open>now\<close> are the generated id and the clock.
  The questions generated in the background after the response are not part of the
  request's result.
\<close>

definition createAssessment ::
  "(string \<Rightarrow> Failure + CognitoUserAttributes) \<Rightarrow> string \<Rightarrow> string
     \<Rightarrow> CreateAssessmentEvent \<Rightarrow> Store \<Rightarrow> (Failure + Assessment) \<times> Store" where
  "createAssessment getUserFromToken uuid now event st =
     (case ce_authorization event of
        None \<Rightarrow> (Inl (AuthenticationError ''Authentication required''), st)
      | Some authHeader \<Rightarrow>
         (if authHeader = [] then (Inl (AuthenticationError ''Authentication required''), st)
          else
           (case getUserFromToken authHeader of
              Inl e \<Rightarrow> (Inl e, st)
            | Inr user \<Rightarrow>
               (if \<not> hasRole user TENANT \<and> \<not> hasRole user ADMIN
                then (Inl (AuthorizationError ''Only tenants and admins can create assessments''), st)
                else if getTenantId user = None \<and> \<not> hasRole user ADMIN
                then (Inl (ValidationError ''Tenant ID required''), st)
                else
                 (case ce_body event of
                    None \<Rightarrow> (Inl (ValidationError ''Invalid JSON in request body''), st)
                  | Some body \<Rightarrow>
                     (case (cb_title body, cb_targetRole body, cb_knowledgeAreaMix body) of
                        (Some t, Some role, MixArray mix) \<Rightarrow>
                          (if t = []
                           then (Inl (ValidationError ''Missing required fields: title, targetRole, knowledgeAreaMix''), st)
                           else if length mix = 0
                           then (Inl (ValidationError ''knowledgeAreaMix must be a non-empty array''), st)
                           else if maxQuestionsInvalid (cb_maxQuestions body)
                           then (Inl (ValidationError ''maxQuestions must be a number between 1 and 50''), st)
                           else if \<bar>totalPercentage mix - 100\<bar> > 1 / 100
                           then (Inl (ValidationError ''Knowledge area percentages must sum to 100''), st)
                           else
                            (let finalTenantId =
                                   strOr (getTenantId user)
                                     (strOr (cb_tenantId body)
                                        (if hasRole user ADMIN then ''admin-default'' else []))
                             in if trim finalTenantId = []
                                then (Inl (ValidationError ''Tenant ID is required and cannot be empty''), st)
                                else
                                 (let assessment =
                                        \<lparr> a_assessmentId = uuid,
                                          a_tenantId = finalTenantId,
                                          title = t,
                                          description = cb_description body,
                                          targetRole = role,
                                          knowledgeAreaMix = mix,
                                          initialDifficulty =
                                            (case cb_initialDifficulty body of None \<Rightarrow> 3 | Some d \<Rightarrow> d),
                                          durationMinutes = cb_durationMinutes body,
                                          maxQuestions =
                                            Some (max 1 (min 50 (maxQuestionsValue (cb_maxQuestions body)))),
                                          passThreshold = None,
                                          createdAt = now,
                                          updatedAt = now,
                                          createdBy = sub user,
                                          isActive = True \<rparr>
                                  in (case putAssessment st assessment of
                                        Inl e \<Rightarrow> (Inl e, st)
                                      | Inr st' \<Rightarrow> (Inr assessment, st')))))
                      | (_, _, MixNotArray) \<Rightarrow>
                          (case (cb_title body, cb_targetRole body) of
                             (Some t, Some role) \<Rightarrow>
                               (if t = []
                                then (Inl (ValidationError ''Missing required fields: title, targetRole, knowledgeAreaMix''), st)
                                else (Inl (ValidationError ''knowledgeAreaMix must be a non-empty array''), st))
                           | _ \<Rightarrow> (Inl (ValidationError ''Missing required fields: title, targetRole, knowledgeAreaMix''), st))
                      | _ \<Rightarrow> (Inl (ValidationError ''Missing required fields: title, targetRole, knowledgeAreaMix''), st)))))))"


section \<open>Statements in the words of the specification\<close>

text \<open>
  The deficit of a configured area: its target percentage minus the share of the answered
  questions that fell in the area, times 100; the share is 0 when nothing is answered.
\<close>

definition spec_deficit :: "KnowledgeAreaConfig \<Rightarrow> QuestionResponse list \<Rightarrow> rat" where
  "spec_deficit config answered =
     percentage config
       - (if answered = [] then 0
          else of_nat (length (filter (\<lambda>r. knowledgeArea r = area config) answered))
               / of_nat (length answered) * 100)"




section \<open>Reading the store\<close>

text \<open>The stored difficulty of an area in a session of the store.\<close>

definition storedDifficulty :: "Store \<Rightarrow> string \<times> string \<Rightarrow> KnowledgeArea \<Rightarrow> DifficultyLevel option" where
  "storedDifficulty st key a =
     (case sessions st key of None \<Rightarrow> None | Some s \<Rightarrow> map_of (currentDifficulty s) a)"

text \<open>The stored answer log of a session of the store.\<close>

definition storedLog :: "Store \<Rightarrow> string \<times> string \<Rightarrow> QuestionResponse list option" where
  "storedLog st key = (case sessions st key of None \<Rightarrow> None | Some s \<Rightarrow> Some (questionsAnswered s))"

section \<open>Example data\<close>

definition exampleResponse :: "string \<Rightarrow> KnowledgeArea \<Rightarrow> bool \<Rightarrow> QuestionResponse" where
  "exampleResponse qid a correct =
     \<lparr> questionId = qid, knowledgeArea = a, difficulty = 3, answer = Text ''x'',
       isCorrect = correct, timeSpentSeconds = 30, answeredAt = ''2024-01-01T10:00:00.000Z'' \<rparr>"

text \<open>
  A SENIOR assessment over three areas with a cap of 2 questions, and a session that has
  answered three algorithm questions correctly (so that area stands at difficulty 4) and
  now holds a fourth question, in another area.
\<close>

definition exampleMix :: "KnowledgeAreaConfig list" where
  "exampleMix =
     [\<lparr> area = SYSTEM_SCENARIO_DESIGN, percentage = 40, programmingLanguage = None \<rparr>,
      \<lparr> area = ALGORITHMS_DATA_STRUCTURES, percentage = 30, programmingLanguage = None \<rparr>,
      \<lparr> area = QUANTITATIVE_MATH, percentage = 30, programmingLanguage = None \<rparr>]"

definition exampleAssessment :: Assessment where
  "exampleAssessment =
     \<lparr> a_assessmentId = ''a1'', a_tenantId = ''t1'', title = ''Backend'', description = None,
       targetRole = \<lparr> name = ''Engineer'', seniorityLevel = SENIOR \<rparr>,
       knowledgeAreaMix = exampleMix, initialDifficulty = 3, durationMinutes = None,
       maxQuestions = Some 2, passThreshold = None,
       createdAt = ''2024-01-01T09:00:00.000Z'', updatedAt = ''2024-01-01T09:00:00.000Z'',
       createdBy = ''u1'', isActive = True \<rparr>"

definition exampleQuestion :: "string \<Rightarrow> KnowledgeArea \<Rightarrow> Question" where
  "exampleQuestion qid a =
     \<lparr> q_questionId = qid, q_questionText = ''What is 2 + 2?'', q_questionType = NUMERICAL,
       q_knowledgeArea = a, q_difficulty = 3, q_options = None,
       q_correctAnswer = Text ''4'', q_explanation = ''Addition'' \<rparr>"

definition exampleLog :: "QuestionResponse list" where
  "exampleLog =
     [exampleResponse ''q1'' ALGORITHMS_DATA_STRUCTURES True,
      exampleResponse ''q2'' ALGORITHMS_DATA_STRUCTURES True,
      exampleResponse ''q3'' ALGORITHMS_DATA_STRUCTURES True]"

definition exampleSession :: CandidateSession where
  "exampleSession =
     \<lparr> sessionId = ''s1'', assessmentId = ''a1'', tenantId = ''t1'',
       candidateEmail = None, candidateName = None,
       startedAt = ''2024-01-01T10:00:00.000Z'', submittedAt = None,
       currentDifficulty = [(SYSTEM_SCENARIO_DESIGN, 3), (ALGORITHMS_DATA_STRUCTURES, 4),
                            (QUANTITATIVE_MATH, 3)],
       questionsAnswered = exampleLog,
       status = IN_PROGRESS,
       currentQuestion = Some (exampleQuestion ''q4'' QUANTITATIVE_MATH) \<rparr>"

text \<open>
  The store: that session, a second one that is already completed, the assessment, and
  the pre-generated question \<open>q1\<close>.
\<close>

definition exampleStore :: Store where
  "exampleStore =
     \<lparr> sessions = [(''t1'', ''s1'') \<mapsto> exampleSession,
                   (''t1'', ''s2'') \<mapsto> exampleSession\<lparr>sessionId := ''s2'', status := COMPLETED,
                                        submittedAt := Some ''2024-01-01T11:00:00.000Z'',
                                        currentQuestion := None\<rparr>],
       assessments = [(''t1'', ''a1'') \<mapsto> exampleAssessment],
       questions = [(''t1'', ''a1#q1'') \<mapsto> exampleQuestion ''q1'' ALGORITHMS_DATA_STRUCTURES],
       metrics = Map.empty,
       insights = Map.empty \<rparr>"

definition exampleAnswer :: "string \<Rightarrow> AnswerEvent" where
  "exampleAnswer qid =
     \<lparr> ev_sessionId = Some ''s1'', ev_tenantId = Some ''t1'',
       ev_body = Some \<lparr> b_questionId = Some qid, b_answer = Some (Text '' 4 ''),
                        b_timeSpentSeconds = Some 12 \<rparr> \<rparr>"

text \<open>A mix of 60 and 40 percent, and five answers, all in the first area.\<close>

definition exampleMixAB :: "KnowledgeAreaConfig list" where
  "exampleMixAB =
     [\<lparr> area = PROGRAMMING_LANGUAGE, percentage = 60, programmingLanguage = Some ''Java'' \<rparr>,
      \<lparr> area = ANALYTICAL_REASONING, percentage = 40, programmingLanguage = None \<rparr>]"

definition exampleFiveInA :: "QuestionResponse list" where
  "exampleFiveInA =
     [exampleResponse ''q1'' PROGRAMMING_LANGUAGE True, exampleResponse ''q2'' PROGRAMMING_LANGUAGE False,
      exampleResponse ''q3'' PROGRAMMING_LANGUAGE True, exampleResponse ''q4'' PROGRAMMING_LANGUAGE True,
      exampleResponse ''q5'' PROGRAMMING_LANGUAGE False]"



text \<open>A completed session document that carries no \<open>submittedAt\<close>.\<close>

definition exampleCompleted :: CandidateSession where
  "exampleCompleted = exampleSession\<lparr>status := COMPLETED, currentQuestion := None\<rparr>"

text \<open>An insights generator that fails, and a submit request for a session id.\<close>

definition exampleNoInsights :: "PerformanceMetricsPassed \<Rightarrow> Assessment \<Rightarrow> AIInsight option" where
  "exampleNoInsights computed assessment = None"

definition exampleSubmit :: "string \<Rightarrow> SessionEvent" where
  "exampleSubmit sid = \<lparr> se_sessionId = Some sid, se_tenantId = Some ''t1'' \<rparr>"

text \<open>
  A tenant user, a token decoder that accepts every header as that user, and a request
  to create an assessment with an initial difficulty of 9.
\<close>

definition exampleUser :: CognitoUserAttributes where
  "exampleUser = \<lparr> sub = ''u1'', email = ''hr@example.com'', custom_tenantId = Some ''t1'',
                    custom_role = TENANT \<rparr>"

definition exampleGetUser :: "string \<Rightarrow> Failure + CognitoUserAttributes" where
  "exampleGetUser header = Inr exampleUser"

definition exampleCreate :: CreateAssessmentEvent where
  "exampleCreate =
     \<lparr> ce_authorization = Some ''Bearer token'',
       ce_body = Some \<lparr> cb_title = Some ''Backend'', cb_description = None,
                         cb_targetRole = Some \<lparr> name = ''Engineer'', seniorityLevel = SENIOR \<rparr>,
                         cb_knowledgeAreaMix = MixArray exampleMix,
                         cb_initialDifficulty = Some 9, cb_durationMinutes = Some 60,
                         cb_maxQuestions = MaxNumber 10, cb_tenantId = None \<rparr> \<rparr>"

text \<open>
  A session of the example assessment whose area scores are 90 (systems), 80 (algorithms)
  and 50 (quantitative).
\<close>

definition exampleScoredLog :: "QuestionResponse list" where
  "exampleScoredLog =
     replicate 9 (exampleResponse ''s'' SYSTEM_SCENARIO_DESIGN True)
       @ [exampleResponse ''s'' SYSTEM_SCENARIO_DESIGN False]
       @ replicate 4 (exampleResponse ''a'' ALGORITHMS_DATA_STRUCTURES True)
       @ [exampleResponse ''a'' ALGORITHMS_DATA_STRUCTURES False,
          exampleResponse ''m'' QUANTITATIVE_MATH True,
          exampleResponse ''m'' QUANTITATIVE_MATH False]"

definition exampleScoredSession :: CandidateSession where
  "exampleScoredSession = exampleSession\<lparr>questionsAnswered := exampleScoredLog, currentQuestion := None\<rparr>"

text \<open>
  The example session one answer earlier: two correct algorithm answers, every area at the
  initial difficulty 3, and the third algorithm question pending.
\<close>

definition examplePrior :: CandidateSession where
  "examplePrior =
     exampleSession\<lparr>currentDifficulty := [(SYSTEM_SCENARIO_DESIGN, 3), (ALGORITHMS_DATA_STRUCTURES, 3),
                                          (QUANTITATIVE_MATH, 3)],
                     questionsAnswered := [exampleResponse ''q1'' ALGORITHMS_DATA_STRUCTURES True,
                                           exampleResponse ''q2'' ALGORITHMS_DATA_STRUCTURES True],
                     currentQuestion := Some (exampleQuestion ''q3'' ALGORITHMS_DATA_STRUCTURES)\<rparr>"

definition examplePriorStore :: Store where
  "examplePriorStore = exampleStore\<lparr>sessions := [(''t1'', ''s1'') \<mapsto> examplePrior]\<rparr>"


section \<open>Objects and strings\<close>


lemma map_of_obj_set: "map_of (obj_set k v m) = (map_of m)(k \<mapsto> v)"
  by (induction m) (auto simp: fun_eq_iff)

lemma keys_obj_set: "fst ` set (obj_set k v m) = insert k (fst ` set m)"
proof -
  have "fst ` set (obj_set k v m) = dom (map_of (obj_set k v m))"
    by (simp only: dom_map_of_conv_image_fst)
  also have "\<dots> = insert k (dom (map_of m))"
    by (simp add: map_of_obj_set)
  finally show ?thesis by (simp only: dom_map_of_conv_image_fst)
qed

lemma distinct_obj_set: "distinct (map fst m) \<Longrightarrow> distinct (map fst (obj_set k v m))"
  by (induction m) (auto simp: keys_obj_set)

lemma map_of_fold_obj_set:
  "map_of (fold (\<lambda>a upd. obj_set a (f a) upd) as init) x
     = (if x \<in> set as then Some (f x) else map_of init x)"
  by (induction as arbitrary: init) (auto simp: map_of_obj_set)

lemma distinct_fold_obj_set:
  "distinct (map fst init) \<Longrightarrow> distinct (map fst (fold (\<lambda>a upd. obj_set a (f a) upd) as init))"
  by (induction as arbitrary: init) (simp_all add: distinct_obj_set)

lemma map_of_obj_spread:
  "distinct (map fst b) \<Longrightarrow> map_of (obj_spread a b) = map_of a ++ map_of b"
proof (induction b arbitrary: a)
  case Nil
  then show ?case by (simp add: obj_spread_def)
next
  case (Cons kv b)
  obtain k v where kv: "kv = (k, v)" by (cases kv)
  from Cons.prems kv have k: "k \<notin> fst ` set b" and d: "distinct (map fst b)" by auto
  have step: "obj_spread a (kv # b) = obj_spread (obj_set k v a) b"
    by (simp add: obj_spread_def kv)
  have "map_of (obj_spread (obj_set k v a) b) = map_of (obj_set k v a) ++ map_of b"
    by (rule Cons.IH [OF d])
  then have "map_of (obj_spread a (kv # b)) = (map_of a)(k \<mapsto> v) ++ map_of b"
    by (simp only: step map_of_obj_set)
  also have "\<dots> = map_of a ++ map_of (kv # b)"
  proof -
    have "map_of b k = None" using k by (simp add: map_of_eq_None_iff)
    then show ?thesis by (auto simp: fun_eq_iff map_add_def kv split: option.splits)
  qed
  finally show ?case .
qed

lemma set_set_order: "set (set_order xs) = set xs"
  by (induction xs) auto

lemma calculateNextDifficulty_append_other:
  "knowledgeArea r \<noteq> b \<Longrightarrow> calculateNextDifficulty d b (xs @ [r]) = calculateNextDifficulty d b xs"
  by (simp add: calculateNextDifficulty_def)

lemma map_of_updateSessionDifficulties:
  "map_of (updateSessionDifficulties s) b
     = (if b \<in> knowledgeArea ` set (questionsAnswered s)
        then Some (calculateNextDifficulty (difficultyOr3 (currentDifficulty s) b) b (questionsAnswered s))
        else map_of (currentDifficulty s) b)"
  by (simp add: updateSessionDifficulties_def Let_def map_of_obj_spread distinct_fold_obj_set
      map_add_def map_of_fold_obj_set set_set_order)

lemma dropWhile_self: "xs = [] \<or> \<not> P (hd xs) \<Longrightarrow> dropWhile P xs = xs"
  by (cases xs) auto

lemma trim_trim: "trim (trim s) = trim s"
proof -
  let ?W = isWhiteSpace
  let ?t = "dropWhile ?W s"
  let ?u = "rev (dropWhile ?W (rev ?t))"
  have u: "trim s = ?u" by (simp add: trim_def)
  have front: "dropWhile ?W ?u = ?u"
  proof (cases "?u = []")
    case True then show ?thesis by (metis dropWhile.simps(1))
  next
    case False
    then have ne: "dropWhile ?W (rev ?t) \<noteq> []" by simp
    have "\<exists>ys. rev ?t = ys @ dropWhile ?W (rev ?t)"
      by (metis takeWhile_dropWhile_id)
    then obtain ys where ys: "rev ?t = ys @ dropWhile ?W (rev ?t)" ..
    then have "?t = ?u @ rev ys" by (metis rev_append rev_rev_ident)
    with False have "hd ?u = hd ?t" by (metis hd_append2)
    moreover have "?t \<noteq> []" using \<open>?t = ?u @ rev ys\<close> False by (metis append_is_Nil_conv)
    then have "\<not> ?W (hd ?t)" by (rule hd_dropWhile)
    ultimately show ?thesis using False by (simp add: dropWhile_self)
  qed
  have "trim ?u = rev (dropWhile ?W (rev (dropWhile ?W ?u)))" by (simp add: trim_def)
  also have "\<dots> = rev (dropWhile ?W (rev ?u))" by (simp only: front)
  also have "\<dots> = ?u" by simp
  finally show ?thesis by (simp only: u)
qed


section \<open>The Difficulty Adjuster\<close>

lemma slice_last_rev_take: "slice_last n xs = rev (take n (rev xs))"
  by (simp add: slice_last_def rev_take)

text \<open>
  Claim C1. For a current difficulty \<open>d\<close> in 1..5 and any answer log: with fewer than 3
  responses in the area \<open>calculateNextDifficulty\<close> returns \<open>d\<close>; otherwise, with
  \<open>recentAccuracy\<close> the number of correct responses among the last 3 of the area divided by
  3, it returns \<open>d + 1\<close> when \<open>recentAccuracy \<ge> 0.8\<close> and \<open>d < 5\<close>, \<open>d - 1\<close> when
  \<open>recentAccuracy < 0.4\<close> and \<open>d > 1\<close>, and \<open>d\<close> otherwise. The result stays in 1..5 and
  differs from \<open>d\<close> by at most 1.
\<close>

theorem calculateNextDifficulty_correct:
  assumes "1 \<le> d" and "d \<le> 5"
  shows "let areaResponses = filter (\<lambda>r. knowledgeArea r = a) responses;
             lastThree = rev (take 3 (rev areaResponses));
             recentAccuracy = (of_nat (length (filter isCorrect lastThree)) :: rat) / 3;
             d' = calculateNextDifficulty d a responses
         in (length areaResponses < 3 \<longrightarrow> d' = d)
          \<and> (3 \<le> length areaResponses \<longrightarrow>
               d' = (if recentAccuracy \<ge> 8 / 10 \<and> d < 5 then d + 1
                     else if recentAccuracy < 4 / 10 \<and> d > 1 then d - 1
                     else d))
          \<and> 1 \<le> d' \<and> d' \<le> 5 \<and> \<bar>d' - d\<bar> \<le> 1"
  using assms
  by (auto simp: calculateNextDifficulty_def Let_def DIFFICULTY_STABLE_WINDOW_def
      MAX_DIFFICULTY_def MIN_DIFFICULTY_def DIFFICULTY_INCREASE_THRESHOLD_def
      DIFFICULTY_DECREASE_THRESHOLD_def slice_last_rev_take)

text \<open>
  The theorem at difficulty 3: three correct answers in the area give 4, three incorrect
  ones give 2, two answers leave 3.
\<close>

theorem calculateNextDifficulty_correct_witness:
  "(1::int) \<le> 3 \<and> (3::int) \<le> 5
   \<and> calculateNextDifficulty 3 QUANTITATIVE_MATH
        [exampleResponse ''q1'' QUANTITATIVE_MATH True, exampleResponse ''q2'' ANALYTICAL_REASONING False,
         exampleResponse ''q3'' QUANTITATIVE_MATH True, exampleResponse ''q4'' QUANTITATIVE_MATH True] = 4
   \<and> calculateNextDifficulty 3 QUANTITATIVE_MATH
        [exampleResponse ''q1'' QUANTITATIVE_MATH False, exampleResponse ''q2'' QUANTITATIVE_MATH False,
         exampleResponse ''q3'' QUANTITATIVE_MATH False] = 2
   \<and> calculateNextDifficulty 3 QUANTITATIVE_MATH
        [exampleResponse ''q1'' QUANTITATIVE_MATH True, exampleResponse ''q2'' QUANTITATIVE_MATH True] = 3"
  using calculateNextDifficulty_correct [of 3 QUANTITATIVE_MATH
          "[exampleResponse ''q1'' QUANTITATIVE_MATH True, exampleResponse ''q2'' ANALYTICAL_REASONING False,
            exampleResponse ''q3'' QUANTITATIVE_MATH True, exampleResponse ''q4'' QUANTITATIVE_MATH True]"]
        calculateNextDifficulty_correct [of 3 QUANTITATIVE_MATH
          "[exampleResponse ''q1'' QUANTITATIVE_MATH False, exampleResponse ''q2'' QUANTITATIVE_MATH False,
            exampleResponse ''q3'' QUANTITATIVE_MATH False]"]
        calculateNextDifficulty_correct [of 3 QUANTITATIVE_MATH
          "[exampleResponse ''q1'' QUANTITATIVE_MATH True, exampleResponse ''q2'' QUANTITATIVE_MATH True]"]
  by (simp add: exampleResponse_def Let_def)


section \<open>Answer grading\<close>

lemma every_includes_both_ways:
  "(list_all (\<lambda>ans. ans \<in> set us) cs \<and> list_all (\<lambda>ans. ans \<in> set cs) us) = (set us = set cs)"
  by (auto simp: list_all_iff)

text \<open>
  Claim C9. Against a single expected value \<open>checkAnswer\<close> is true exactly when the
  submitted and the expected string are equal after trimming and lowercasing both (a
  submitted array is first turned into a string, as \<^verbatim>\<open>String\<close> does); against a
  multi-value expected answer it is true exactly when the set of submitted answers equals
  the set of expected answers, and a submission that is not an array is graded incorrect.
\<close>

theorem checkAnswer_grading:
  "checkAnswer (Text u) (Text c) = (toLowerCase (trim u) = toLowerCase (trim c))
   \<and> checkAnswer (Choices us) (Choices cs) = (set us = set cs)
   \<and> checkAnswer (Text u) (Choices cs) = False
   \<and> checkAnswer (Choices us) (Text c) = (toLowerCase (trim (joinComma us)) = toLowerCase (trim c))"
  by (simp add: every_includes_both_ways)

text \<open>
  The theorem on a padded, capitalised answer, on a wrong one, on a multi-value answer given
  in another order with a repetition, on an incomplete one, and on a string submitted
  against a multi-value answer.
\<close>

theorem checkAnswer_grading_witness:
  "checkAnswer (Text ''  Paris '') (Text ''paris'')
   \<and> \<not> checkAnswer (Text ''Paris'') (Text ''Rome'')
   \<and> checkAnswer (Choices [''b'', ''a'', ''b'']) (Choices [''a'', ''b''])
   \<and> \<not> checkAnswer (Choices [''a'']) (Choices [''a'', ''b''])
   \<and> \<not> checkAnswer (Text ''a'') (Choices [''a''])"
  using checkAnswer_grading [of "''  Paris ''" "''paris''" "[''b'', ''a'', ''b'']" "[''a'', ''b'']"]
        checkAnswer_grading [of "''Paris''" "''Rome''" "[''a'']" "[''a'', ''b'']"]
        checkAnswer_grading [of "''a''" "''a''" "[''a'']" "[''a'']"]
  by code_simp


section \<open>Answering: the structure of \<open>submitAnswer\<close>\<close>


lemma submitAnswer_accepted_cases:
  assumes "submitAnswer now event st = (Inr result, st')"
  shows "\<exists>sid body qid ans seconds session question.
           ev_sessionId event = Some sid \<and> sid \<noteq> [] \<and> ev_body event = Some body
         \<and> b_questionId body = Some qid \<and> qid \<noteq> [] \<and> b_answer body = Some ans
         \<and> b_timeSpentSeconds body = Some seconds
         \<and> findSessionById st sid (ev_tenantId event) = Some session
         \<and> status session = IN_PROGRESS \<and> trim (tenantId session) \<noteq> []
         \<and> lookupQuestion st session qid = Inr (Some question)
         \<and> \<not> list_ex (\<lambda>r. questionId r = qid) (questionsAnswered session)
         \<and> recordAnswer now st sid session question qid ans seconds = (Inr result, st')"
  using assms
  by (auto simp: submitAnswer_def split: option.splits if_splits sum.splits)


lemma recordAnswer_stored:
  assumes "trim (tenantId session) \<noteq> []"
    and "sessions st (trim (tenantId session), sid) = Some session"
  shows "\<exists>result.
           recordAnswer now st sid session question qid ans seconds
             = (Inr result,
                st\<lparr>sessions := (sessions st)((trim (tenantId session), sid) \<mapsto>
                     session\<lparr>questionsAnswered := questionsAnswered session @
                                [\<lparr> questionId = qid, knowledgeArea = q_knowledgeArea question,
                                   difficulty = q_difficulty question, answer = ans,
                                   isCorrect = checkAnswer ans (q_correctAnswer question),
                                   timeSpentSeconds = seconds, answeredAt = now \<rparr>],
                              currentDifficulty := updateSessionDifficulties
                                (session\<lparr>questionsAnswered := questionsAnswered session @
                                [\<lparr> questionId = qid, knowledgeArea = q_knowledgeArea question,
                                   difficulty = q_difficulty question, answer = ans,
                                   isCorrect = checkAnswer ans (q_correctAnswer question),
                                   timeSpentSeconds = seconds, answeredAt = now \<rparr>]\<rparr>),
                              currentQuestion := None\<rparr>)\<rparr>)
         \<and> nextQuestionAvailable result
             = (of_nat (length (questionsAnswered session) + 1)
                  < numOr (case assessments st (trim (tenantId session), assessmentId session) of
                             None \<Rightarrow> None | Some a \<Rightarrow> maxQuestions a) 10)
         \<and> res_questionsAnswered result = length (questionsAnswered session) + 1"
  using assms
  by (simp add: recordAnswer_def updateSessionItem_def trim_trim Let_def)


section \<open>The Knowledge Area Selector\<close>


lemma map_of_initial_counts:
  "map_of (fold (\<lambda>config counts. obj_set (area config) (0::nat) counts) mix init) a
     = (if a \<in> area ` set mix then Some 0 else map_of init a)"
  by (induction mix arbitrary: init) (auto simp: map_of_obj_set)

lemma map_of_counted:
  "map_of (fold (\<lambda>response counts.
             case map_of counts (knowledgeArea response) of
               None \<Rightarrow> counts
             | Some n \<Rightarrow> obj_set (knowledgeArea response) (n + 1) counts) answered counts) a
     = (case map_of counts a of
          None \<Rightarrow> None
        | Some n \<Rightarrow> Some (n + length (filter (\<lambda>r. knowledgeArea r = a) answered)))"
proof (induction answered arbitrary: counts)
  case Nil
  then show ?case by (simp split: option.splits)
next
  case (Cons r rs)
  show ?case
    by (cases "map_of counts (knowledgeArea r)")
       (auto simp: Cons.IH map_of_obj_set split: option.splits)
qed

lemma map_of_areaCounts:
  "map_of (areaCounts mix answered) a
     = (if a \<in> area ` set mix
        then Some (length (filter (\<lambda>r. knowledgeArea r = a) answered)) else None)"
  by (simp add: areaCounts_def map_of_counted map_of_initial_counts)

lemma underTargetAreas_spec:
  "underTargetAreas mix answered
     = filter (\<lambda>(a, deficit). deficit > 0) (map (\<lambda>config. (area config, spec_deficit config answered)) mix)"
  unfolding underTargetAreas_def Let_def
  by (intro arg_cong [where f = "filter (\<lambda>(a, deficit). deficit > 0)"] map_cong refl)
     (simp add: map_of_areaCounts spec_deficit_def)

lemma weightedWalk_in_mix: "weightedWalk mix random = Some a \<Longrightarrow> a \<in> area ` set mix"
  by (induction mix random rule: weightedWalk.induct) (auto simp: Let_def split: if_splits)

lemma weightedRandomSelection_in_mix:
  "mix \<noteq> [] \<Longrightarrow> \<exists>a. weightedRandomSelection rnd mix = Inr a \<and> a \<in> area ` set mix"
  by (cases mix) (auto simp: weightedRandomSelection_def Let_def dest: weightedWalk_in_mix split: option.splits)


lemma hd_sort_key_least:
  assumes "xs \<noteq> []"
  shows "hd (sort_key f xs) \<in> set xs \<and> (\<forall>y\<in>set xs. f (hd (sort_key f xs)) \<le> f y)"
proof -
  let ?s = "sort_key f xs"
  from assms have ne: "?s \<noteq> []" by (metis length_sort length_0_conv)
  then obtain z zs where zs: "?s = z # zs" by (cases ?s) auto
  have "sorted (map f ?s)" by (rule sorted_sort_key)
  with zs have "\<forall>y\<in>set ?s. f z \<le> f y" by auto
  moreover have "set ?s = set xs" by simp
  moreover have "z \<in> set ?s" using zs by simp
  ultimately show ?thesis using zs by auto
qed

text \<open>
  Claim C3. For every non-empty knowledge-area mix (in particular every valid one, whose
  percentages sum to 100), every answer log and every random draw,
  \<open>selectNextKnowledgeArea\<close> returns an area of the mix; and whenever some configured
  area has a strictly positive deficit, the returned area is one of maximal deficit.
\<close>

theorem selectNextKnowledgeArea_correct:
  assumes "mix \<noteq> []"
  shows "\<exists>a. selectNextKnowledgeArea rnd mix answered difficulties = Inr a
            \<and> a \<in> area ` set mix
            \<and> ((\<exists>c\<in>set mix. spec_deficit c answered > 0) \<longrightarrow>
                 (\<exists>c\<in>set mix. area c = a \<and> spec_deficit c answered > 0
                     \<and> (\<forall>c'\<in>set mix. spec_deficit c' answered \<le> spec_deficit c answered)))"
proof (cases "\<exists>c\<in>set mix. spec_deficit c answered > 0")
  case False
  then have "underTargetAreas mix answered = []"
    by (auto simp: underTargetAreas_spec filter_empty_conv)
  then show ?thesis
    using weightedRandomSelection_in_mix [OF assms, of rnd] False
    by (auto simp: selectNextKnowledgeArea_def)
next
  case True
  let ?under = "underTargetAreas mix answered"
  let ?key = "\<lambda>(a :: KnowledgeArea, deficit :: rat). - deficit"
  from True have ne: "?under \<noteq> []"
    by (auto simp: underTargetAreas_spec filter_empty_conv)
  let ?top = "hd (sort_key ?key ?under)"
  from hd_sort_key_least [OF ne, of ?key]
  have top_in: "?top \<in> set ?under" and top_least: "\<forall>y\<in>set ?under. ?key ?top \<le> ?key y"
    by blast+
  from top_in obtain c where c: "c \<in> set mix" "?top = (area c, spec_deficit c answered)"
    "spec_deficit c answered > 0"
    by (auto simp: underTargetAreas_spec)
  have max: "spec_deficit c' answered \<le> spec_deficit c answered" if "c' \<in> set mix" for c'
  proof (cases "spec_deficit c' answered > 0")
    case True
    with that have "(area c', spec_deficit c' answered) \<in> set ?under"
      by (auto simp: underTargetAreas_spec)
    with top_least c(2) show ?thesis by force
  next
    case False
    with c(3) show ?thesis by simp
  qed
  have "selectNextKnowledgeArea rnd mix answered difficulties = Inr (area c)"
    using ne c(2) by (simp add: selectNextKnowledgeArea_def Let_def)
  with c max show ?thesis by auto
qed


text \<open>
  The theorem on the mix 60/40 after five answers in the first area: the second area, whose
  deficit is 40 against -40, is returned.
\<close>

theorem selectNextKnowledgeArea_correct_witness:
  "exampleMixAB \<noteq> []
   \<and> selectNextKnowledgeArea (1 / 2) exampleMixAB exampleFiveInA [] = Inr ANALYTICAL_REASONING"
proof -
  have ne: "exampleMixAB \<noteq> []" by (simp add: exampleMixAB_def)
  have defs: "spec_deficit (exampleMixAB ! 0) exampleFiveInA = - 40"
             "spec_deficit (exampleMixAB ! 1) exampleFiveInA = 40"
    by (simp_all add: spec_deficit_def exampleMixAB_def exampleFiveInA_def exampleResponse_def)
  from selectNextKnowledgeArea_correct [OF ne, of "1 / 2" exampleFiveInA "[]"]
  obtain a where a: "selectNextKnowledgeArea (1 / 2) exampleMixAB exampleFiveInA [] = Inr a"
    and imp: "(\<exists>c\<in>set exampleMixAB. spec_deficit c exampleFiveInA > 0) \<longrightarrow>
              (\<exists>c\<in>set exampleMixAB. area c = a \<and> spec_deficit c exampleFiveInA > 0)"
    by blast
  have "\<exists>c\<in>set exampleMixAB. spec_deficit c exampleFiveInA > 0"
    using defs by (simp add: exampleMixAB_def)
  with imp obtain c where "c \<in> set exampleMixAB" "area c = a" "spec_deficit c exampleFiveInA > 0"
    by blast
  then have "a = ANALYTICAL_REASONING"
    using defs by (auto simp: exampleMixAB_def)
  with a ne show ?thesis by simp
qed

section \<open>The difficulty map after an answer\<close>


text \<open>
  Claim C2, as amended. When an answer is accepted, the Adjuster is re-run for every area
  that has a response in the log, not only for the answered one. For an area \<open>b\<close> other
  than the answered area, the stored difficulty after the answer is: the stored entry as it
  was, when \<open>b\<close> has no response in the log; otherwise \<open>calculateNextDifficulty\<close> applied
  to \<open>b\<close>'s stored value (3 when missing or 0) and the log before the answer, so it depends
  on \<open>b\<close>'s own responses only.
\<close>

theorem answer_difficulty_frame:
  assumes "submitAnswer now event st = (Inr result, st')"
    and "ev_sessionId event = Some sid"
    and "ev_body event = Some body" and "b_questionId body = Some qid"
    and "findSessionById st sid (ev_tenantId event) = Some session"
    and "sessions st (trim (tenantId session), sid) = Some session"
    and "lookupQuestion st session qid = Inr (Some question)"
    and "b \<noteq> q_knowledgeArea question"
  shows "storedDifficulty st' (trim (tenantId session), sid) b =
          (if b \<in> knowledgeArea ` set (questionsAnswered session)
           then Some (calculateNextDifficulty (difficultyOr3 (currentDifficulty session) b) b
                        (questionsAnswered session))
           else map_of (currentDifficulty session) b)"
proof -
  from submitAnswer_accepted_cases [OF assms(1)] assms(2-5,7)
  obtain ans seconds where ok: "trim (tenantId session) \<noteq> []"
    and rec: "recordAnswer now st sid session question qid ans seconds = (Inr result, st')"
    by auto
  let ?entry = "\<lparr> questionId = qid, knowledgeArea = q_knowledgeArea question,
                   difficulty = q_difficulty question, answer = ans,
                   isCorrect = checkAnswer ans (q_correctAnswer question),
                   timeSpentSeconds = seconds, answeredAt = now \<rparr>"
  let ?s' = "session\<lparr>questionsAnswered := questionsAnswered session @ [?entry]\<rparr>"
  from recordAnswer_stored [OF ok assms(6), of now question qid ans seconds] rec
  have "storedDifficulty st' (trim (tenantId session), sid) b = map_of (updateSessionDifficulties ?s') b"
    by (auto simp: storedDifficulty_def)
  also have "\<dots> = (if b \<in> knowledgeArea ` set (questionsAnswered session)
           then Some (calculateNextDifficulty (difficultyOr3 (currentDifficulty session) b) b
                        (questionsAnswered session))
           else map_of (currentDifficulty session) b)"
    using assms(8)
    by (simp add: map_of_updateSessionDifficulties calculateNextDifficulty_append_other)
  finally show ?thesis .
qed

lemmas example_defs = exampleStore_def exampleSession_def exampleAnswer_def exampleQuestion_def
  exampleAssessment_def exampleLog_def exampleResponse_def exampleMix_def

lemma trim_t1: "trim ''t1'' = ''t1''"
  by code_simp

lemmas adjuster_defs = calculateNextDifficulty_def Let_def difficultyOr3_def
  slice_last_def DIFFICULTY_STABLE_WINDOW_def MAX_DIFFICULTY_def MIN_DIFFICULTY_def
  DIFFICULTY_INCREASE_THRESHOLD_def DIFFICULTY_DECREASE_THRESHOLD_def

lemmas answer_defs = submitAnswer_def findSessionById_def lookupQuestion_def recordAnswer_def
  updateSessionItem_def numOr_def toLowerCase_def trim_def isWhiteSpace_def lowerChar_def

lemma example_answer_accepted:
  "fst (submitAnswer ''2024-01-01T10:05:00.000Z'' (exampleAnswer ''q4'') exampleStore)
     = Inr \<lparr> res_isCorrect = True, res_explanation = ''Addition'', nextQuestionAvailable = False,
             res_questionsAnswered = 4, res_maxQuestions = 2 \<rparr>"
  by (simp add: answer_defs trim_t1 example_defs Let_def)

text \<open>
  The example session is what the handler produces: from two correct algorithm answers at
  difficulty 3, a third correct one leaves the algorithms area at 4 with these three
  entries in the log.
\<close>

lemma example_session_reached:
  "storedDifficulty examplePriorStore (''t1'', ''s1'') ALGORITHMS_DATA_STRUCTURES = Some 3
   \<and> storedDifficulty
         (snd (submitAnswer ''2024-01-01T10:04:00.000Z'' (exampleAnswer ''q3'') examplePriorStore))
         (''t1'', ''s1'') ALGORITHMS_DATA_STRUCTURES = Some 4
   \<and> map_option (map (\<lambda>r. (questionId r, knowledgeArea r, isCorrect r)))
         (storedLog
            (snd (submitAnswer ''2024-01-01T10:04:00.000Z'' (exampleAnswer ''q3'') examplePriorStore))
            (''t1'', ''s1''))
       = Some (map (\<lambda>r. (questionId r, knowledgeArea r, isCorrect r)) exampleLog)"
  by (simp add: answer_defs trim_t1 example_defs examplePriorStore_def examplePrior_def
      storedDifficulty_def storedLog_def updateSessionDifficulties_def obj_spread_def adjuster_defs)

text \<open>
  Claim C2 as stated fails: in the example session the algorithms area stands at
  difficulty 4 after three correct answers; an accepted answer in the quantitative area
  moves the algorithms area to 5.
\<close>

theorem answer_difficulty_frame_counterexample:
  "status exampleSession = IN_PROGRESS
   \<and> fst (submitAnswer ''2024-01-01T10:05:00.000Z'' (exampleAnswer ''q4'') exampleStore)
       = Inr \<lparr> res_isCorrect = True, res_explanation = ''Addition'', nextQuestionAvailable = False,
               res_questionsAnswered = 4, res_maxQuestions = 2 \<rparr>
   \<and> lookupQuestion exampleStore exampleSession ''q4'' = Inr (Some (exampleQuestion ''q4'' QUANTITATIVE_MATH))
   \<and> storedDifficulty exampleStore (''t1'', ''s1'') ALGORITHMS_DATA_STRUCTURES = Some 4
   \<and> storedDifficulty (snd (submitAnswer ''2024-01-01T10:05:00.000Z'' (exampleAnswer ''q4'') exampleStore))
        (''t1'', ''s1'') ALGORITHMS_DATA_STRUCTURES = Some 5"
  by (simp add: answer_defs trim_t1 example_defs storedDifficulty_def
      updateSessionDifficulties_def obj_spread_def adjuster_defs)

text \<open>
  The amended theorem on the same answer: the area without responses keeps its 3, the
  algorithms area gets the Adjuster's value for its own three responses.
\<close>

theorem answer_difficulty_frame_witness:
  "storedDifficulty (snd (submitAnswer ''2024-01-01T10:05:00.000Z'' (exampleAnswer ''q4'') exampleStore))
        (''t1'', ''s1'') SYSTEM_SCENARIO_DESIGN = Some 3
   \<and> storedDifficulty (snd (submitAnswer ''2024-01-01T10:05:00.000Z'' (exampleAnswer ''q4'') exampleStore))
        (''t1'', ''s1'') ALGORITHMS_DATA_STRUCTURES
       = Some (calculateNextDifficulty 4 ALGORITHMS_DATA_STRUCTURES exampleLog)"
proof -
  let ?now = "''2024-01-01T10:05:00.000Z''"
  let ?res = "\<lparr> res_isCorrect = True, res_explanation = ''Addition'', nextQuestionAvailable = False,
             res_questionsAnswered = 4, res_maxQuestions = 2 \<rparr>"
  let ?st' = "snd (submitAnswer ?now (exampleAnswer ''q4'') exampleStore)"
  have run: "submitAnswer ?now (exampleAnswer ''q4'') exampleStore = (Inr ?res, ?st')"
    using example_answer_accepted by (simp add: prod_eq_iff)
  have sid: "ev_sessionId (exampleAnswer ''q4'') = Some ''s1''"
    and body: "ev_body (exampleAnswer ''q4'')
                 = Some \<lparr> b_questionId = Some ''q4'', b_answer = Some (Text '' 4 ''),
                          b_timeSpentSeconds = Some 12 \<rparr>"
    and qid: "b_questionId \<lparr> b_questionId = Some ''q4'', b_answer = Some (Text '' 4 ''),
                          b_timeSpentSeconds = Some 12 \<rparr> = Some ''q4''"
    by (simp_all add: exampleAnswer_def)
  have found: "findSessionById exampleStore ''s1'' (ev_tenantId (exampleAnswer ''q4'')) = Some exampleSession"
    by (simp add: findSessionById_def exampleStore_def exampleAnswer_def)
  have tenant: "trim (tenantId exampleSession) = ''t1''"
    by (simp add: exampleSession_def trim_t1)
  have stored: "sessions exampleStore (trim (tenantId exampleSession), ''s1'') = Some exampleSession"
    by (simp add: tenant) (simp add: exampleStore_def)
  have question: "lookupQuestion exampleStore exampleSession ''q4''
                    = Inr (Some (exampleQuestion ''q4'' QUANTITATIVE_MATH))"
    by (simp add: lookupQuestion_def exampleSession_def exampleQuestion_def)
  have a: "SYSTEM_SCENARIO_DESIGN \<noteq> q_knowledgeArea (exampleQuestion ''q4'' QUANTITATIVE_MATH)"
    and b: "ALGORITHMS_DATA_STRUCTURES \<noteq> q_knowledgeArea (exampleQuestion ''q4'' QUANTITATIVE_MATH)"
    by (simp_all add: exampleQuestion_def)
  note frame = answer_difficulty_frame [OF run sid body qid found stored question]
  show ?thesis
    using frame [OF a] frame [OF b]
    by (simp add: tenant) (simp add: exampleSession_def exampleLog_def exampleResponse_def difficultyOr3_def)
qed


section \<open>Duplicate answers\<close>


text \<open>
  Claim C6, as amended. On an IN_PROGRESS session, an answer whose \<open>questionId\<close> is
  already in the session's answer log is rejected, and the rejected request leaves the
  store as it was: no log entry is appended and the difficulty map is unchanged. When the
  request is complete and the question can still be resolved, the error is the validation
  error "Question already answered" (status 400, code VALIDATION_ERROR).
\<close>

theorem duplicate_answer_rejected:
  assumes "ev_sessionId event = Some sid" and "sid \<noteq> []"
    and "ev_body event = Some body" and "b_questionId body = Some qid"
    and "findSessionById st sid (ev_tenantId event) = Some session"
    and "status session = IN_PROGRESS"
    and "list_ex (\<lambda>r. questionId r = qid) (questionsAnswered session)"
  shows "\<exists>e. submitAnswer now event st = (Inl e, st)
            \<and> (qid \<noteq> [] \<and> b_answer body \<noteq> None \<and> b_timeSpentSeconds body \<noteq> None
                 \<and> trim (tenantId session) \<noteq> []
                 \<and> (\<exists>q. lookupQuestion st session qid = Inr (Some q))
               \<longrightarrow> e = ValidationError ''Question already answered'')"
  using assms
  by (auto simp: submitAnswer_def split: option.splits sum.splits)

text \<open>
  Claim C6 as stated fails on the kind of the error: the duplicate of \<open>q1\<close> is rejected with
  a \<open>ValidationError\<close>, status 400 and code VALIDATION_ERROR, where the conflict error of
  the platform has status 409 and code CONFLICT_ERROR.
\<close>

theorem duplicate_answer_rejected_counterexample:
  "status exampleSession = IN_PROGRESS
   \<and> list_ex (\<lambda>r. questionId r = ''q1'') (questionsAnswered exampleSession)
   \<and> submitAnswer ''2024-01-01T10:05:00.000Z'' (exampleAnswer ''q1'') exampleStore
       = (Inl (ValidationError ''Question already answered''), exampleStore)
   \<and> formatErrorResponse (ValidationError ''Question already answered'')
       = (400, ''VALIDATION_ERROR'', ''Question already answered'')
   \<and> statusCode (ConflictError ''Resource conflict'') = 409
   \<and> errorCode (ConflictError ''Resource conflict'') = ''CONFLICT_ERROR''"
  by (simp add: answer_defs trim_t1 example_defs formatErrorResponse_def)

text \<open>
  The duplicate of \<open>q2\<close>, an answered question that is neither the session's current
  question nor in the questions table, is rejected by the question lookup, which comes
  before the duplicate check.
\<close>

lemma duplicate_of_unresolvable_question:
  "list_ex (\<lambda>r. questionId r = ''q2'') (questionsAnswered exampleSession)
   \<and> submitAnswer ''2024-01-01T10:05:00.000Z'' (exampleAnswer ''q2'') exampleStore
       = (Inl (NotFoundError ''Question''), exampleStore)"
  by (simp add: answer_defs trim_t1 example_defs)

text \<open>The amended theorem on the duplicate of \<open>q1\<close> in the example store.\<close>

theorem duplicate_answer_rejected_witness:
  "submitAnswer ''2024-01-01T10:05:00.000Z'' (exampleAnswer ''q1'') exampleStore
     = (Inl (ValidationError ''Question already answered''), exampleStore)"
proof -
  let ?body = "\<lparr> b_questionId = Some ''q1'', b_answer = Some (Text '' 4 ''),
                  b_timeSpentSeconds = Some 12 \<rparr>"
  have sid: "ev_sessionId (exampleAnswer ''q1'') = Some ''s1''" and ne: "''s1'' \<noteq> []"
    and body: "ev_body (exampleAnswer ''q1'') = Some ?body"
    and qid: "b_questionId ?body = Some ''q1''"
    by (simp_all add: exampleAnswer_def)
  have found: "findSessionById exampleStore ''s1'' (ev_tenantId (exampleAnswer ''q1'')) = Some exampleSession"
    by (simp add: findSessionById_def exampleStore_def exampleAnswer_def)
  have running: "status exampleSession = IN_PROGRESS"
    and dup: "list_ex (\<lambda>r. questionId r = ''q1'') (questionsAnswered exampleSession)"
    by (simp_all add: exampleSession_def exampleLog_def exampleResponse_def)
  have resolvable: "''q1'' \<noteq> [] \<and> b_answer ?body \<noteq> None \<and> b_timeSpentSeconds ?body \<noteq> None
      \<and> trim (tenantId exampleSession) \<noteq> []
      \<and> (\<exists>q. lookupQuestion exampleStore exampleSession ''q1'' = Inr (Some q))"
    by (simp add: lookupQuestion_def exampleSession_def exampleStore_def exampleQuestion_def trim_t1)
  from duplicate_answer_rejected [OF sid ne body qid found running dup, of "''2024-01-01T10:05:00.000Z''"]
    resolvable
  show ?thesis by blast
qed


section \<open>The question cap\<close>






section \<open>Determinism of the Scoring Engine\<close>


text \<open>
  Claim C5, as amended. For every session document and assessment, two runs of
  \<open>calculatePerformanceMetrics\<close> (in either copy of the scoring engine) yield metrics that
  are equal in every field except possibly \<open>completedAt\<close>, which is the session's
  \<open>submittedAt\<close> when that is present and not empty, and the clock at the time of the run
  otherwise; with a non-empty \<open>submittedAt\<close> the two results are equal in every field.
\<close>

theorem scoring_deterministic_up_to_clock:
  "calculatePerformanceMetrics now session assessment
     = (calculatePerformanceMetrics now' session assessment)
         \<lparr>completedAt := strOr (submittedAt session) now\<rparr>
   \<and> calculatePerformanceMetrics_additive now session assessment
     = (calculatePerformanceMetrics_additive now' session assessment)
         \<lparr>completedAt := strOr (submittedAt session) now\<rparr>
   \<and> (submittedAt session = Some t \<and> t \<noteq> [] \<longrightarrow>
        calculatePerformanceMetrics now session assessment
          = calculatePerformanceMetrics now' session assessment
      \<and> calculatePerformanceMetrics_additive now session assessment
          = calculatePerformanceMetrics_additive now' session assessment
      \<and> completedAt (calculatePerformanceMetrics now session assessment) = t)"
  by (simp add: calculatePerformanceMetrics_def calculatePerformanceMetrics_additive_def
      Let_def strOr_def split: prod.splits)

text \<open>
  Claim C5 as stated fails: for a completed session document without \<open>submittedAt\<close>, two
  runs one second apart differ in \<open>completedAt\<close>.
\<close>

theorem scoring_deterministic_counterexample:
  "status exampleCompleted = COMPLETED
   \<and> completedAt (calculatePerformanceMetrics ''2024-01-01T12:00:00.000Z'' exampleCompleted exampleAssessment)
       = ''2024-01-01T12:00:00.000Z''
   \<and> completedAt (calculatePerformanceMetrics ''2024-01-01T12:00:01.000Z'' exampleCompleted exampleAssessment)
       = ''2024-01-01T12:00:01.000Z''
   \<and> calculatePerformanceMetrics ''2024-01-01T12:00:00.000Z'' exampleCompleted exampleAssessment
       \<noteq> calculatePerformanceMetrics ''2024-01-01T12:00:01.000Z'' exampleCompleted exampleAssessment"
proof -
  have a: "completedAt (calculatePerformanceMetrics now exampleCompleted exampleAssessment) = now" for now
    by (simp add: calculatePerformanceMetrics_def Let_def strOr_def exampleCompleted_def
        exampleSession_def split: prod.splits)
  have "completedAt (calculatePerformanceMetrics ''2024-01-01T12:00:00.000Z'' exampleCompleted exampleAssessment)
       \<noteq> completedAt (calculatePerformanceMetrics ''2024-01-01T12:00:01.000Z'' exampleCompleted exampleAssessment)"
    by (simp only: a) simp
  then have "calculatePerformanceMetrics ''2024-01-01T12:00:00.000Z'' exampleCompleted exampleAssessment
       \<noteq> calculatePerformanceMetrics ''2024-01-01T12:00:01.000Z'' exampleCompleted exampleAssessment"
    by metis
  then show ?thesis by (simp add: a) (simp add: exampleCompleted_def)
qed

text \<open>The amended theorem on the completed session with a \<open>submittedAt\<close>.\<close>

theorem scoring_deterministic_up_to_clock_witness:
  "calculatePerformanceMetrics ''2024-01-01T12:00:00.000Z''
       (exampleCompleted\<lparr>submittedAt := Some ''2024-01-01T11:00:00.000Z''\<rparr>) exampleAssessment
     = calculatePerformanceMetrics ''2024-01-01T12:00:01.000Z''
       (exampleCompleted\<lparr>submittedAt := Some ''2024-01-01T11:00:00.000Z''\<rparr>) exampleAssessment
   \<and> completedAt (calculatePerformanceMetrics ''2024-01-01T12:00:00.000Z''
       (exampleCompleted\<lparr>submittedAt := Some ''2024-01-01T11:00:00.000Z''\<rparr>) exampleAssessment)
     = ''2024-01-01T11:00:00.000Z''"
proof -
  let ?s = "exampleCompleted\<lparr>submittedAt := Some ''2024-01-01T11:00:00.000Z''\<rparr>"
  have h: "submittedAt ?s = Some ''2024-01-01T11:00:00.000Z'' \<and> ''2024-01-01T11:00:00.000Z'' \<noteq> []"
    by simp
  from scoring_deterministic_up_to_clock
    [of "''2024-01-01T12:00:00.000Z''" ?s exampleAssessment "''2024-01-01T12:00:01.000Z''"
        "''2024-01-01T11:00:00.000Z''"] h
  show ?thesis by blast
qed


section \<open>Submitting a terminal or an unknown session\<close>


text \<open>
  Claim C7. Submitting a session whose status is not IN_PROGRESS fails with the validation
  error "Session already submitted" (status 400), submitting a session id that does not
  exist fails with the not-found error "Session not found" (status 404); the two error
  responses differ, and the failed submit leaves the store, and with it the terminal
  session, unchanged.
\<close>

theorem submit_errors_distinct:
  "(se_sessionId event = Some sid \<and> sid \<noteq> []
      \<and> findSessionById st sid (se_tenantId event) = Some session
      \<and> status session \<noteq> IN_PROGRESS
    \<longrightarrow> submitSession generateInsights now now' event st
          = (Inl (ValidationError ''Session already submitted''), st))
   \<and> (se_sessionId event = Some sid \<and> sid \<noteq> []
      \<and> findSessionById st sid (se_tenantId event) = None
    \<longrightarrow> submitSession generateInsights now now' event st
          = (Inl (NotFoundError ''Session''), st))
   \<and> formatErrorResponse (ValidationError ''Session already submitted'')
       = (400, ''VALIDATION_ERROR'', ''Session already submitted'')
   \<and> formatErrorResponse (NotFoundError ''Session'')
       = (404, ''NOT_FOUND_ERROR'', ''Session not found'')
   \<and> formatErrorResponse (ValidationError ''Session already submitted'')
       \<noteq> formatErrorResponse (NotFoundError ''Session'')"
  by (simp add: submitSession_def formatErrorResponse_def)

text \<open>
  The theorem on the example store: the completed session \<open>s2\<close> and the unknown id
  \<open>s9\<close>.
\<close>

theorem submit_errors_distinct_witness:
  "submitSession exampleNoInsights ''2024-01-01T12:00:00.000Z'' ''2024-01-01T12:00:01.000Z''
       (exampleSubmit ''s2'') exampleStore
     = (Inl (ValidationError ''Session already submitted''), exampleStore)
   \<and> submitSession exampleNoInsights ''2024-01-01T12:00:00.000Z'' ''2024-01-01T12:00:01.000Z''
       (exampleSubmit ''s9'') exampleStore
     = (Inl (NotFoundError ''Session''), exampleStore)"
proof -
  let ?done = "exampleSession\<lparr>sessionId := ''s2'', status := COMPLETED,
                  submittedAt := Some ''2024-01-01T11:00:00.000Z'', currentQuestion := None\<rparr>"
  have terminal: "se_sessionId (exampleSubmit ''s2'') = Some ''s2'' \<and> ''s2'' \<noteq> []
      \<and> findSessionById exampleStore ''s2'' (se_tenantId (exampleSubmit ''s2'')) = Some ?done
      \<and> status ?done \<noteq> IN_PROGRESS"
    by (simp add: exampleSubmit_def findSessionById_def exampleStore_def)
  have missing: "se_sessionId (exampleSubmit ''s9'') = Some ''s9'' \<and> ''s9'' \<noteq> []
      \<and> findSessionById exampleStore ''s9'' (se_tenantId (exampleSubmit ''s9'')) = None"
    by (simp add: exampleSubmit_def findSessionById_def exampleStore_def)
  from submit_errors_distinct
         [of "exampleSubmit ''s2''" "''s2''" exampleStore ?done exampleNoInsights
             "''2024-01-01T12:00:00.000Z''" "''2024-01-01T12:00:01.000Z''"] terminal
  have a: "submitSession exampleNoInsights ''2024-01-01T12:00:00.000Z'' ''2024-01-01T12:00:01.000Z''
       (exampleSubmit ''s2'') exampleStore
     = (Inl (ValidationError ''Session already submitted''), exampleStore)"
    by blast
  from submit_errors_distinct
         [of "exampleSubmit ''s9''" "''s9''" exampleStore ?done exampleNoInsights
             "''2024-01-01T12:00:00.000Z''" "''2024-01-01T12:00:01.000Z''"] missing
  have b: "submitSession exampleNoInsights ''2024-01-01T12:00:00.000Z'' ''2024-01-01T12:00:01.000Z''
       (exampleSubmit ''s9'') exampleStore
     = (Inl (NotFoundError ''Session''), exampleStore)"
    by blast
  from a b show ?thesis by (rule conjI)
qed


section \<open>Validation when an assessment is created\<close>

text \<open>
  For an authorised request with a title, a target role and a non-empty mix, a question cap
  outside 1..50 (or a cap that is not a number) and percentages that miss 100 by more than
  0.01 are rejected with a validation error, and nothing is stored.
\<close>

lemma createAssessment_checks_cap_and_percentages:
  assumes "ce_authorization event = Some header" and "header \<noteq> []"
    and "getUserFromToken header = Inr user" and "hasRole user TENANT \<or> hasRole user ADMIN"
    and "getTenantId user \<noteq> None \<or> hasRole user ADMIN"
    and "ce_body event = Some body" and "cb_title body = Some t" and "t \<noteq> []"
    and "cb_targetRole body = Some role" and "cb_knowledgeAreaMix body = MixArray mix"
    and "mix \<noteq> []"
  shows "(maxQuestionsInvalid (cb_maxQuestions body) \<or> \<bar>totalPercentage mix - 100\<bar> > 1 / 100)
          \<longrightarrow> (\<exists>m. createAssessment getUserFromToken uuid now event st = (Inl (ValidationError m), st))"
  using assms by (auto simp: createAssessment_def)

text \<open>
  Claim C8 asks for a validation error whenever the initial difficulty lies outside 1..5.
  The handler checks the question cap and the percentages and never looks at the initial
  difficulty: a request that is valid in everything else and asks for an initial
  difficulty of 9 creates and stores the assessment with that difficulty.
\<close>

theorem createAssessment_accepts_difficulty_9:
  "fst (createAssessment exampleGetUser ''a9'' ''2024-01-01T09:00:00.000Z'' exampleCreate exampleStore)
     = Inr \<lparr> a_assessmentId = ''a9'', a_tenantId = ''t1'', title = ''Backend'', description = None,
             targetRole = \<lparr> name = ''Engineer'', seniorityLevel = SENIOR \<rparr>,
             knowledgeAreaMix = exampleMix, initialDifficulty = 9, durationMinutes = Some 60,
             maxQuestions = Some 10, passThreshold = None,
             createdAt = ''2024-01-01T09:00:00.000Z'', updatedAt = ''2024-01-01T09:00:00.000Z'',
             createdBy = ''u1'', isActive = True \<rparr>
   \<and> map_option initialDifficulty
        (assessments (snd (createAssessment exampleGetUser ''a9'' ''2024-01-01T09:00:00.000Z''
                             exampleCreate exampleStore)) (''t1'', ''a9''))
       = Some 9"
  by (simp add: createAssessment_def exampleCreate_def exampleGetUser_def exampleUser_def
      hasRole_def getTenantId_def maxQuestionsInvalid_def maxQuestionsValue_def totalPercentage_def
      exampleMix_def strOr_def trim_t1 putAssessment_def Let_def)


section \<open>The Scoring Engine: area scores\<close>
















section \<open>The role-fit score\<close>











text \<open>
  The second copy of the scoring engine adds an adjustment to the overall score instead of
  re-weighting; on the example it gives 81, which also exceeds the overall score.
\<close>

lemma additive_copy_on_example:
  "roleFitScore (calculatePerformanceMetrics_additive now exampleScoredSession exampleAssessment) = 81
   \<and> overallScore (calculatePerformanceMetrics_additive now exampleScoredSession exampleAssessment) = 75"
  by code_simp
end
